theory Spec2Isabelle
  imports Complex_Main "HOL-Library.Sublist"
begin

section \<open>Python values\<close>

text \<open>
  The exceptions the program can meet.  The program defines no exception class of its own:
  it raises \<open>RuntimeError\<close> itself (failed \<open>iconutil\<close> run) and otherwise propagates what
  Pillow, CairoSVG and \<open>pathlib\<close> raise.
\<close>

datatype error =
    OSError string
  | ValueError string
  | ZeroDivisionError
  | RuntimeError string

text \<open>
  Python floats.  A float operation is the exact real operation followed by rounding to a
  double; the rounding function is a parameter of the model (field \<open>float_round\<close> below).
  \<open>ieee_rounding\<close> collects what the proofs use of round-to-nearest on doubles: it is
  monotone, exact on integers up to \<open>2^53\<close>, and has relative error at most \<open>2^-53\<close> on the
  normal range.  Integers are converted to float exactly (they stay far below \<open>2^53\<close> here).
\<close>

definition ieee_rounding :: "(real \<Rightarrow> real) \<Rightarrow> bool" where
  "ieee_rounding fl \<longleftrightarrow>
     (\<forall>x y. x \<le> y \<longrightarrow> fl x \<le> fl y) \<and>
     (\<forall>n::int. \<bar>n\<bar> \<le> 2 ^ 53 \<longrightarrow> fl (of_int n) = of_int n) \<and>
     (\<forall>x. 1 / 2 ^ 1022 \<le> \<bar>x\<bar> \<and> \<bar>x\<bar> \<le> 2 ^ 1023 \<longrightarrow> \<bar>fl x - x\<bar> \<le> \<bar>x\<bar> / 2 ^ 53)"

text \<open>\<open>int(x)\<close> on a float truncates towards zero.\<close>

definition py_int :: "real \<Rightarrow> int" where
  "py_int x = (if 0 \<le> x then \<lfloor>x\<rfloor> else \<lceil>x\<rceil>)"

section \<open>Pillow images\<close>

text \<open>
  An image is its mode, its size and its pixels.  A pixel is the four bytes Pillow stores
  for the modes \<open>RGB\<close> and \<open>RGBA\<close> (red, green, blue, alpha or padding); the pixel function
  is read inside the image's bounds only.
\<close>

datatype mode = RGBA | RGB | OtherMode string

type_synonym pixel = "int \<times> int \<times> int \<times> int"

record image =
  im_mode :: mode
  im_size :: "int \<times> int"
  im_px :: "int \<Rightarrow> int \<Rightarrow> pixel"

record qcolor =
  red :: int
  green :: int
  blue :: int
  alpha :: int

definition QColor_white :: qcolor where
  "QColor_white = \<lparr>red = 255, green = 255, blue = 255, alpha = 255\<rparr>"

text \<open>
  Paths are lists of components, \<open>out_dir / "icon.ico"\<close> being \<open>out_dir @ [''icon.ico'']\<close>.
  The output tree is an association list from paths to entries, read with \<open>map_of\<close> (a
  later write shadows an earlier one).  An image file keeps the format it was saved in, the
  image handed to \<open>Image.save\<close> and the \<open>sizes\<close> argument (ICO only); \<open>ToolOutput\<close> is the
  file \<open>iconutil\<close> writes.
\<close>

type_synonym path = "string list"

datatype entry = Directory | ImageFile string image "(int \<times> int) list" | ToolOutput

type_synonym fs = "(path \<times> entry) list"

text \<open>
  What the program takes from outside: float rounding, the CairoSVG rasteriser followed by
  \<open>Image.open\<close> and \<open>load\<close> on its bytes (\<open>svg2png\<close>: url, output width, output height,
  background colour), \<open>Image.open\<close> on a source file (\<open>image_open\<close>), Pillow's per-pixel
  arithmetic (mode conversion, alpha compositing of a source pixel over a destination
  pixel, blending of a source pixel into a destination pixel under a mask byte), its
  Lanczos resampling, whether \<open>Image.alpha_composite\<close> rejects a negative destination
  (Pillow releases differ), whether an encoder or the write fails (\<open>save_error\<close>: image,
  path, format), \<open>platform.system()\<close>, and the return code and error output of
  \<open>iconutil\<close> (output tree, iconset directory, destination).  None of these is code of the
  repository, so each is a parameter and every theorem holds for all of them.
\<close>

record ext =
  float_round :: "real \<Rightarrow> real"
  svg2png :: "string \<Rightarrow> int \<Rightarrow> int \<Rightarrow> (int \<times> int \<times> int) option \<Rightarrow> error + image"
  image_open :: "string \<Rightarrow> error + image"
  convert_px :: "mode \<Rightarrow> mode \<Rightarrow> pixel \<Rightarrow> pixel"
  composite_px :: "pixel \<Rightarrow> pixel \<Rightarrow> pixel"
  blend_px :: "int \<Rightarrow> pixel \<Rightarrow> pixel \<Rightarrow> pixel"
  resample :: "image \<Rightarrow> int \<times> int \<Rightarrow> int \<Rightarrow> int \<Rightarrow> pixel"
  strict_dest :: bool
  save_error :: "image \<Rightarrow> path \<Rightarrow> string \<Rightarrow> error option"
  platform_system :: string
  iconutil :: "fs \<Rightarrow> path \<Rightarrow> path \<Rightarrow> int \<times> string"

definition Image_new :: "mode \<Rightarrow> int \<times> int \<Rightarrow> pixel \<Rightarrow> image" where
  "Image_new m sz c = \<lparr>im_mode = m, im_size = sz, im_px = (\<lambda>x y. c)\<rparr>"

text \<open>\<open>Image.convert(mode)\<close>: a copy when the mode is already the requested one.\<close>

definition convert :: "ext \<Rightarrow> image \<Rightarrow> mode \<Rightarrow> image" where
  "convert X img m =
     (if im_mode img = m then img
      else img\<lparr>im_mode := m, im_px := (\<lambda>x y. convert_px X (im_mode img) m (im_px img x y))\<rparr>)"

text \<open>\<open>Image.resize(size, LANCZOS)\<close>: Pillow refuses a size that is not positive.\<close>

definition resize :: "ext \<Rightarrow> image \<Rightarrow> int \<times> int \<Rightarrow> error + image" where
  "resize X img sz =
     (if fst sz \<le> 0 \<or> snd sz \<le> 0 then Inl (ValueError ''height and width must be > 0'')
      else Inr (img\<lparr>im_size := sz, im_px := resample X img sz\<rparr>))"

text \<open>
  The pixels of the canvas that a source image of size \<open>(w, h)\<close> pasted at \<open>(cx, cy)\<close>
  covers: Pillow clips the source rectangle to the canvas.
\<close>

definition covers :: "image \<Rightarrow> image \<Rightarrow> int \<times> int \<Rightarrow> int \<Rightarrow> int \<Rightarrow> bool" where
  "covers canvas src off x y \<longleftrightarrow>
     0 \<le> x \<and> x < fst (im_size canvas) \<and> 0 \<le> y \<and> y < snd (im_size canvas) \<and>
     fst off \<le> x \<and> x < fst off + fst (im_size src) \<and>
     snd off \<le> y \<and> y < snd off + snd (im_size src)"

text \<open>\<open>canvas.paste(im, (cx, cy))\<close>: the source is converted to the canvas mode first.\<close>

definition paste :: "ext \<Rightarrow> image \<Rightarrow> image \<Rightarrow> int \<times> int \<Rightarrow> image" where
  "paste X canvas src off =
     (let im = convert X src (im_mode canvas) in
      canvas\<lparr>im_px := (\<lambda>x y. if covers canvas im off x y
                               then im_px im (x - fst off) (y - snd off)
                               else im_px canvas x y)\<rparr>)"

text \<open>\<open>img.split()[3]\<close>: the alpha band.\<close>

definition alpha_band :: "image \<Rightarrow> int \<Rightarrow> int \<Rightarrow> int" where
  "alpha_band img x y = (case im_px img x y of (r, g, b, a) \<Rightarrow> a)"

text \<open>\<open>canvas.paste(im, (cx, cy), mask=band)\<close>.\<close>

definition paste_mask :: "ext \<Rightarrow> image \<Rightarrow> image \<Rightarrow> int \<times> int \<Rightarrow> (int \<Rightarrow> int \<Rightarrow> int) \<Rightarrow> image" where
  "paste_mask X canvas src off msk =
     (let im = convert X src (im_mode canvas) in
      canvas\<lparr>im_px := (\<lambda>x y. if covers canvas im off x y
                               then blend_px X (msk (x - fst off) (y - snd off))
                                      (im_px canvas x y) (im_px im (x - fst off) (y - snd off))
                               else im_px canvas x y)\<rparr>)"

text \<open>\<open>canvas.alpha_composite(im, (cx, cy))\<close>, in place, both images \<open>RGBA\<close>.\<close>

definition alpha_composite :: "ext \<Rightarrow> image \<Rightarrow> image \<Rightarrow> int \<times> int \<Rightarrow> error + image" where
  "alpha_composite X canvas src off =
     (if strict_dest X \<and> min (fst off) (snd off) < 0
      then Inl (ValueError ''Destination must be non-negative'')
      else Inr (canvas\<lparr>im_px := (\<lambda>x y. if covers canvas src off x y
                                    then composite_px X (im_px src (x - fst off) (y - snd off))
                                           (im_px canvas x y)
                                    else im_px canvas x y)\<rparr>))"

section \<open>Utilities\<close>

definition qcolor_to_rgba_tuple :: "qcolor \<Rightarrow> pixel" where
  "qcolor_to_rgba_tuple c = (red c, green c, blue c, alpha c)"

text \<open>\<open>pillow_flatten\<close>: \<open>Image.new("RGB", size, rgb)\<close> pads the fourth byte with 255.\<close>

definition pillow_flatten :: "ext \<Rightarrow> image \<Rightarrow> pixel \<Rightarrow> image" where
  "pillow_flatten X img bg_rgba =
     (if im_mode img \<noteq> RGBA then convert X img RGB
      else
        (case bg_rgba of (r, g, b, a) \<Rightarrow>
           let bg = Image_new RGB (im_size img) (r, g, b, 255);
               img_rgb = convert X img RGB
           in paste_mask X bg img_rgb (0, 0) (alpha_band img)))"

section \<open>Rendering\<close>

text \<open>
  \<open>render_svg_to_pillow\<close>, lines 129 to 134, the safety resize: \<open>work_w / cw\<close> raises on a
  content of width 0, and a scale below 1 resizes the content.
\<close>

definition safety_resize :: "ext \<Rightarrow> int \<Rightarrow> int \<Rightarrow> image \<Rightarrow> error + image" where
  "safety_resize X work_w work_h content =
     (let cw = fst (im_size content);
          ch = snd (im_size content)
      in
        if cw = 0 \<or> ch = 0 then Inl ZeroDivisionError
        else
          let scale = min (float_round X (of_int work_w / of_int cw))
                        (min (float_round X (of_int work_h / of_int ch)) 1)
          in
            if scale < 1 then
              resize X content
                (max 1 (py_int (float_round X (of_int cw * scale))),
                 max 1 (py_int (float_round X (of_int ch * scale))))
            else Inr content)"

text \<open>Lines 105 to 116: the clamped zoom and the size asked of the rasteriser.\<close>

definition render_size :: "ext \<Rightarrow> int \<Rightarrow> int \<Rightarrow> real \<Rightarrow> int \<times> int" where
  "render_size X work_w work_h zoom0 =
     (let zoom = max (float_round X (1 / 10)) (min 1 zoom0)
      in (py_int (max 1 (float_round X (of_int work_w * zoom))),
          py_int (max 1 (float_round X (of_int work_h * zoom)))))"

text \<open>
  Lines 103 to 134: the work area, the rasteriser call, the conversion and the safety
  resize.  The result is the canvas size and the content that will be placed on the canvas.
\<close>

definition render_content ::
  "ext \<Rightarrow> string \<Rightarrow> int \<Rightarrow> int \<Rightarrow> real \<Rightarrow> int \<Rightarrow> bool \<Rightarrow> qcolor option
     \<Rightarrow> error + (int \<times> int \<times> image)" where
  "render_content X svg_path width height zoom padding transparent bg_color =
     (let bg = (case bg_color of Some c \<Rightarrow> c | None \<Rightarrow> QColor_white);
          canvas_w = max 1 width;
          canvas_h = max 1 height;
          work_w = max 1 (canvas_w - 2 * padding);
          work_h = max 1 (canvas_h - 2 * padding);
          rs = render_size X work_w work_h zoom
      in
        case svg2png X svg_path (fst rs) (snd rs)
               (if transparent then None else Some (red bg, green bg, blue bg)) of
          Inl e \<Rightarrow> Inl e
        | Inr opened \<Rightarrow>
            (case safety_resize X work_w work_h
                    (convert X opened (if transparent then RGBA else RGB)) of
               Inl e \<Rightarrow> Inl e
             | Inr content \<Rightarrow> Inr (canvas_w, canvas_h, content)))"

text \<open>Lines 136 to 157: the canvas and the centred placement of the content.\<close>

definition place_on_canvas ::
  "ext \<Rightarrow> bool \<Rightarrow> qcolor option \<Rightarrow> int \<times> int \<times> image \<Rightarrow> error + image" where
  "place_on_canvas X transparent bg_color fitted =
     (case fitted of (canvas_w, canvas_h, content) \<Rightarrow>
        let bg = (case bg_color of Some c \<Rightarrow> c | None \<Rightarrow> QColor_white) in
        if transparent then
          (let canvas = Image_new RGBA (canvas_w, canvas_h) (0, 0, 0, 0);
               cx = (canvas_w - fst (im_size content)) div 2;
               cy = (canvas_h - snd (im_size content)) div 2
           in if im_mode canvas = RGBA \<and> im_mode content = RGBA
              then alpha_composite X canvas content (cx, cy)
              else Inr (paste X canvas content (cx, cy)))
        else
          (let canvas = Image_new RGB (canvas_w, canvas_h) (red bg, green bg, blue bg, 255);
               cx = (canvas_w - fst (im_size content)) div 2;
               cy = (canvas_h - snd (im_size content)) div 2
           in if im_mode content = RGBA
              then Inr (paste_mask X canvas (convert X content RGB) (cx, cy) (alpha_band content))
              else Inr (paste X canvas content (cx, cy))))"

definition render_svg_to_pillow ::
  "ext \<Rightarrow> string \<Rightarrow> int \<Rightarrow> int \<Rightarrow> real \<Rightarrow> int \<Rightarrow> bool \<Rightarrow> qcolor option \<Rightarrow> error + image" where
  "render_svg_to_pillow X svg_path width height zoom padding transparent bg_color =
     (case render_content X svg_path width height zoom padding transparent bg_color of
        Inl e \<Rightarrow> Inl e
      | Inr fitted \<Rightarrow> place_on_canvas X transparent bg_color fitted)"

section \<open>Strings, paths and the output tree\<close>

text \<open>\<open>str(n)\<close> for a natural number, as an f-string renders it.\<close>

definition digit_char :: "nat \<Rightarrow> char" where
  "digit_char d = char_of (48 + d)"

fun str_nat :: "nat \<Rightarrow> string" where
  "str_nat n = (if n < 10 then [digit_char n] else str_nat (n div 10) @ [digit_char (n mod 10)])"

definition str_int :: "int \<Rightarrow> string" where
  "str_int i = (if i < 0 then CHR ''-'' # str_nat (nat (- i)) else str_nat (nat i))"

text \<open>\<open>str.lower()\<close> on ASCII letters.\<close>

definition lower_char :: "char \<Rightarrow> char" where
  "lower_char c = (let n = (of_char c :: nat) in if 65 \<le> n \<and> n \<le> 90 then char_of (n + 32) else c)"

definition lower :: "string \<Rightarrow> string" where
  "lower s = map lower_char s"

text \<open>
  \<open>pathlib\<close>: the suffix of a name starts at its last dot, unless that dot is the first or
  the last character; the stem is the rest.  \<open>with_stem\<close> keeps the suffix and raises
  \<open>ValueError\<close> on a path without a name.
\<close>

definition rfind_dot :: "string \<Rightarrow> nat option" where
  "rfind_dot s =
     (let k = length (takeWhile (\<lambda>c. c \<noteq> CHR ''.'') (rev s))
      in if k = length s then None else Some (length s - 1 - k))"

definition suffix_of :: "string \<Rightarrow> string" where
  "suffix_of s =
     (case rfind_dot s of
        None \<Rightarrow> []
      | Some i \<Rightarrow> if 0 < i \<and> i < length s - 1 then drop i s else [])"

definition stem_of :: "string \<Rightarrow> string" where
  "stem_of s =
     (case rfind_dot s of
        None \<Rightarrow> s
      | Some i \<Rightarrow> if 0 < i \<and> i < length s - 1 then take i s else s)"

definition path_name :: "path \<Rightarrow> string" where
  "path_name p = (if p = [] then [] else last p)"

definition path_stem :: "path \<Rightarrow> string" where
  "path_stem p = stem_of (path_name p)"

definition with_stem :: "path \<Rightarrow> string \<Rightarrow> error + path" where
  "with_stem p stem =
     (if path_name p = [] then Inl (ValueError ''path has an empty name'')
      else Inr (butlast p @ [stem @ suffix_of (path_name p)]))"

definition path_exists :: "fs \<Rightarrow> path \<Rightarrow> bool" where
  "path_exists tree p \<longleftrightarrow> map_of tree p \<noteq> None"

lemma digit_val: "d < 10 \<Longrightarrow> (of_char (digit_char d) :: nat) = 48 + d"
  by (simp add: digit_char_def)

definition str_val :: "string \<Rightarrow> nat" where
  "str_val s = foldl (\<lambda>acc c. 10 * acc + ((of_char c :: nat) - 48)) 0 s"

lemma str_val_snoc: "str_val (s @ [c]) = 10 * str_val s + ((of_char c :: nat) - 48)"
  by (simp add: str_val_def)

lemma str_val_str_nat: "str_val (str_nat n) = n"
proof (induction n rule: str_nat.induct)
  case (1 n)
  show ?case
  proof (cases "n < 10")
    case True
    then show ?thesis by (simp add: str_val_def digit_val)
  next
    case False
    then have "str_nat n = str_nat (n div 10) @ [digit_char (n mod 10)]" by simp
    then have "str_val (str_nat n) = 10 * str_val (str_nat (n div 10)) + (n mod 10)"
      by (simp only: str_val_snoc) (simp add: digit_val)
    with 1 False show ?thesis by simp
  qed
qed

lemma str_nat_inj:
  assumes "str_nat a = str_nat b"
  shows "a = b"
proof -
  from assms have "str_val (str_nat a) = str_val (str_nat b)" by (rule arg_cong)
  then show ?thesis by (simp only: str_val_str_nat)
qed


text \<open>
  \<open>unique_path\<close>: the loop keeps the candidate \<open>new_path\<close> and the counter.  It ends
  because the tree is finite and the candidates of different counters differ.
\<close>

definition candidate :: "path \<Rightarrow> nat \<Rightarrow> error + path" where
  "candidate p counter = with_stem p (path_stem p @ ''_'' @ str_nat counter)"

lemma candidate_Inr:
  assumes "candidate p a = Inr q"
  shows "q = butlast p @ [(path_stem p @ ''_'' @ str_nat a) @ suffix_of (path_name p)]"
proof (cases "path_name p = []")
  case True
  then have "candidate p a = Inl (ValueError ''path has an empty name'')"
    by (simp only: candidate_def with_stem_def simp_thms if_True if_P)
  with assms show ?thesis by (simp only: sum.distinct)
next
  case False
  then have "candidate p a = Inr (butlast p @ [(path_stem p @ ''_'' @ str_nat a) @ suffix_of (path_name p)])"
    by (simp only: candidate_def with_stem_def simp_thms if_False if_not_P)
  with assms show ?thesis by (simp only: sum.inject)
qed

lemma candidate_inj:
  assumes "candidate p a = Inr q" and "candidate p b = Inr q"
  shows "a = b"
proof -
  let ?sfx = "suffix_of (path_name p)"
  note qa = candidate_Inr[OF assms(1)] and qb = candidate_Inr[OF assms(2)]
  from qa qb have "[(path_stem p @ ''_'' @ str_nat a) @ ?sfx] = [(path_stem p @ ''_'' @ str_nat b) @ ?sfx]"
    by (simp only: same_append_eq)
  then have "(path_stem p @ ''_'' @ str_nat a) @ ?sfx = (path_stem p @ ''_'' @ str_nat b) @ ?sfx"
    by (simp only: list.inject)
  then have "path_stem p @ ''_'' @ str_nat a = path_stem p @ ''_'' @ str_nat b"
    by (simp only: append_same_eq)
  then have "''_'' @ str_nat a = ''_'' @ str_nat b" by (simp only: same_append_eq)
  then have "str_nat a = str_nat b" by (simp only: same_append_eq)
  then show ?thesis by (rule str_nat_inj)
qed

definition taken :: "fs \<Rightarrow> path \<Rightarrow> nat \<Rightarrow> nat set" where
  "taken tree p counter = {c. counter \<le> c \<and> (\<exists>q. candidate p c = Inr q \<and> path_exists tree q)}"

lemma finite_taken: "finite (taken tree p counter)"
proof -
  let ?f = "\<lambda>c. case candidate p c of Inr q \<Rightarrow> q | Inl e \<Rightarrow> []"
  have "inj_on ?f (taken tree p counter)"
    unfolding inj_on_def taken_def using candidate_inj by (auto split: sum.splits)
  moreover have "?f ` taken tree p counter \<subseteq> fst ` set tree"
    unfolding taken_def path_exists_def
    by (auto split: sum.splits simp: image_iff dest!: map_of_SomeD) force
  then have "finite (?f ` taken tree p counter)" by (rule finite_subset) simp
  ultimately show ?thesis by (rule finite_imageD[rotated])
qed

lemma taken_step:
  assumes "candidate p counter = Inr q"
  shows "taken tree p (Suc counter) = taken tree p counter - {counter}"
  unfolding taken_def by (auto simp: Suc_le_eq)

function unique_path_loop :: "fs \<Rightarrow> path \<Rightarrow> nat \<Rightarrow> path \<Rightarrow> error + path" where
  "unique_path_loop tree p counter new_path =
     (if path_exists tree new_path then
        (case candidate p counter of
           Inl e \<Rightarrow> Inl e
         | Inr q \<Rightarrow> unique_path_loop tree p (Suc counter) q)
      else Inr new_path)"
  by pat_completeness auto
termination
proof (relation "measure (\<lambda>(tree, p, counter, new_path).
          2 * card (taken tree p counter) + (if path_exists tree new_path then 1 else 0))")
  show "wf (measure (\<lambda>(tree, p, counter, new_path).
          2 * card (taken tree p counter) + (if path_exists tree new_path then 1 else 0)))"
    by simp
next
  fix tree :: fs and p :: path and counter :: nat and new_path q :: path
  assume ex: "path_exists tree new_path" and c: "candidate p counter = Inr q"
  show "((tree, p, Suc counter, q), (tree, p, counter, new_path))
          \<in> measure (\<lambda>(tree, p, counter, new_path).
              2 * card (taken tree p counter) + (if path_exists tree new_path then 1 else 0))"
  proof (cases "path_exists tree q")
    case True
    with c have "counter \<in> taken tree p counter" unfolding taken_def by auto
    then have "card (taken tree p counter - {counter}) < card (taken tree p counter)"
      by (rule card_Diff1_less[OF finite_taken])
    then have "card (taken tree p (Suc counter)) < card (taken tree p counter)"
      by (simp only: taken_step[OF c])
    with ex show ?thesis by simp
  next
    case False
    have "taken tree p (Suc counter) \<subseteq> taken tree p counter" unfolding taken_def by auto
    then have "card (taken tree p (Suc counter)) \<le> card (taken tree p counter)"
      by (rule card_mono[OF finite_taken])
    with ex False show ?thesis by simp
  qed
qed

definition unique_path :: "fs \<Rightarrow> path \<Rightarrow> error + path" where
  "unique_path tree p = unique_path_loop tree p 1 p"

section \<open>Writing to the output tree\<close>

text \<open>
  \<open>Path.mkdir(parents=True, exist_ok=True)\<close>: raises when the path or one of its parents is
  an existing file, and otherwise creates what is missing.
\<close>

definition is_file :: "fs \<Rightarrow> path \<Rightarrow> bool" where
  "is_file tree p \<longleftrightarrow> (case map_of tree p of None \<Rightarrow> False | Some Directory \<Rightarrow> False | Some e \<Rightarrow> True)"

definition mkdir :: "fs \<Rightarrow> path \<Rightarrow> error + fs" where
  "mkdir tree p =
     (if list_ex (\<lambda>q. q \<noteq> [] \<and> is_file tree q) (prefixes p)
      then Inl (OSError ''File exists'')
      else Inr (map (\<lambda>q. (q, Directory))
                  (filter (\<lambda>q. q \<noteq> [] \<and> \<not> path_exists tree q) (prefixes p)) @ tree))"

text \<open>
  \<open>Image.save(path, format, sizes)\<close>: the encoder or the write may fail; a directory cannot
  be opened for writing; otherwise the file is created or replaced.
\<close>

definition save :: "ext \<Rightarrow> fs \<Rightarrow> image \<Rightarrow> path \<Rightarrow> string \<Rightarrow> (int \<times> int) list \<Rightarrow> error + fs" where
  "save X tree img p fmt sizes =
     (if map_of tree p = Some Directory then Inl (OSError ''Is a directory'')
      else case save_error X img p fmt of
             Some e \<Rightarrow> Inl e
           | None \<Rightarrow> Inr ((p, ImageFile fmt img sizes) # tree))"

text \<open>
  The state the exports change: the output tree and the log of rasteriser invocations
  (url, output width, output height, background colour of each \<open>cairosvg.svg2png\<close> call).
\<close>

record world =
  files :: fs
  raster_log :: "(string \<times> int \<times> int \<times> (int \<times> int \<times> int) option) list"

text \<open>
  The arguments of the one \<open>cairosvg.svg2png\<close> call that \<open>render_svg_to_pillow\<close> makes
  (line 119, reached on every call).
\<close>

definition raster_request ::
  "ext \<Rightarrow> string \<Rightarrow> int \<Rightarrow> int \<Rightarrow> real \<Rightarrow> int \<Rightarrow> bool \<Rightarrow> qcolor option
     \<Rightarrow> string \<times> int \<times> int \<times> (int \<times> int \<times> int) option" where
  "raster_request X svg_path width height zoom padding transparent bg_color =
     (let bg = (case bg_color of Some c \<Rightarrow> c | None \<Rightarrow> QColor_white);
          work_w = max 1 (max 1 width - 2 * padding);
          work_h = max 1 (max 1 height - 2 * padding);
          rs = render_size X work_w work_h zoom
      in (svg_path, fst rs, snd rs,
          if transparent then None else Some (red bg, green bg, blue bg)))"

text \<open>A renderer, as the exports use one: the state, a width and a height.\<close>

type_synonym renderer = "world \<Rightarrow> int \<Rightarrow> int \<Rightarrow> (error + image) \<times> world"

definition svg_renderer :: "ext \<Rightarrow> string \<Rightarrow> real \<Rightarrow> int \<Rightarrow> bool \<Rightarrow> qcolor \<Rightarrow> renderer" where
  "svg_renderer X svg_path zoom padding transparent bg wld w h =
     (render_svg_to_pillow X svg_path w h zoom padding transparent (Some bg),
      wld\<lparr>raster_log := raster_log wld @
             [raster_request X svg_path w h zoom padding transparent (Some bg)]\<rparr>)"

text \<open>
  \<open>png_render_to_pillow(path, width, height, **kwargs)\<close>, nested in \<open>on_create\<close>: the keyword
  arguments are accepted and never read.
\<close>

definition png_render_to_pillow :: "ext \<Rightarrow> string \<Rightarrow> int \<Rightarrow> int \<Rightarrow> 'k \<Rightarrow> error + image" where
  "png_render_to_pillow X p width height kwargs =
     (case image_open X p of
        Inl e \<Rightarrow> Inl e
      | Inr img \<Rightarrow> resize X (convert X img RGBA) (width, height))"

definition png_renderer :: "ext \<Rightarrow> string \<Rightarrow> renderer" where
  "png_renderer X src_path wld w h = (png_render_to_pillow X src_path w h (), wld)"


section \<open>Exports\<close>

text \<open>\<open>max(sizes)\<close> raises on an empty list.\<close>

definition py_max :: "int list \<Rightarrow> error + int" where
  "py_max sizes =
     (if sizes = [] then Inl (ValueError ''max() arg is an empty sequence'')
      else Inr (fold max (tl sizes) (hd sizes)))"

text \<open>\<open>str.strip()\<close>.\<close>

definition is_space :: "char \<Rightarrow> bool" where
  "is_space c \<longleftrightarrow> c \<in> set [CHR '' '', CHR 0x09, CHR 0x0A, CHR 0x0B, CHR 0x0C, CHR 0x0D]"

definition strip :: "string \<Rightarrow> string" where
  "strip s = rev (dropWhile is_space (rev (dropWhile is_space s)))"

text \<open>
  Each module-level export and its twin for a raster source, nested in \<open>on_create\<close>, have
  the same text but for the call that renders (\<open>render_svg_to_pillow\<close> in one,
  \<open>png_render_to_pillow\<close> in the other).  The shared text is a \<open>_body\<close> definition that takes
  the renderer; the result is the exception raised, if any, and the state reached.

  \<open>save_custom\<close>, lines 245 to 257, and \<open>save_custom_png\<close>, lines 459 to 468.
\<close>

definition save_custom_body ::
  "ext \<Rightarrow> renderer \<Rightarrow> world \<Rightarrow> path \<Rightarrow> string \<Rightarrow> int \<Rightarrow> int \<Rightarrow> string \<Rightarrow> bool \<Rightarrow> qcolor
     \<Rightarrow> error option \<times> world" where
  "save_custom_body X render wld out_dir name w h fmt transparent bg =
     (case mkdir (files wld) out_dir of
        Inl e \<Rightarrow> (Some e, wld)
      | Inr t1 \<Rightarrow>
          (case render (wld\<lparr>files := t1\<rparr>) w h of
             (Inl e, w2) \<Rightarrow> (Some e, w2)
           | (Inr img, w2) \<Rightarrow>
               (case unique_path (files w2)
                       (out_dir @ [name @ ''_'' @ str_int w @ ''x'' @ str_int h @ ''.'' @ fmt]) of
                  Inl e \<Rightarrow> (Some e, w2)
                | Inr out \<Rightarrow>
                    if fmt = ''pdf'' then
                      (case save X (files w2)
                              (convert X (pillow_flatten X img (qcolor_to_rgba_tuple bg)) RGB)
                              out ''PDF'' [] of
                         Inl e \<Rightarrow> (Some e, w2)
                       | Inr t3 \<Rightarrow> (None, w2\<lparr>files := t3\<rparr>))
                    else
                      (case save X (files w2)
                              (if fmt \<in> set [''jpg'', ''jpeg'', ''bmp''] \<or> \<not> transparent
                               then pillow_flatten X img (qcolor_to_rgba_tuple bg) else img)
                              out fmt [] of
                         Inl e \<Rightarrow> (Some e, w2)
                       | Inr t3 \<Rightarrow> (None, w2\<lparr>files := t3\<rparr>)))))"

definition save_custom ::
  "ext \<Rightarrow> world \<Rightarrow> string \<Rightarrow> path \<Rightarrow> string \<Rightarrow> int \<Rightarrow> int \<Rightarrow> string \<Rightarrow> bool \<Rightarrow> real \<Rightarrow> int
     \<Rightarrow> qcolor \<Rightarrow> error option \<times> world" where
  "save_custom X wld svg_path out_dir name w h fmt transparent zoom padding bg =
     save_custom_body X (svg_renderer X svg_path zoom padding transparent bg)
       wld out_dir name w h (lower fmt) transparent bg"

definition save_custom_png ::
  "ext \<Rightarrow> world \<Rightarrow> string \<Rightarrow> path \<Rightarrow> string \<Rightarrow> int \<Rightarrow> int \<Rightarrow> string \<Rightarrow> bool \<Rightarrow> real \<Rightarrow> int
     \<Rightarrow> qcolor \<Rightarrow> error option \<times> world" where
  "save_custom_png X wld src_path out_dir name w h fmt transparent zoom padding bg =
     save_custom_body X (png_renderer X src_path) wld out_dir name w h fmt transparent bg"

text \<open>\<open>save_windows_ico\<close>, lines 167 to 176, and \<open>save_windows_ico_png\<close>, lines 471 to 478.\<close>

definition save_windows_ico_body ::
  "ext \<Rightarrow> renderer \<Rightarrow> world \<Rightarrow> path \<Rightarrow> int list \<Rightarrow> bool \<Rightarrow> error option \<times> world" where
  "save_windows_ico_body X render wld out_dir sizes transparent =
     (case mkdir (files wld) out_dir of
        Inl e \<Rightarrow> (Some e, wld)
      | Inr t1 \<Rightarrow>
          (case py_max sizes of
             Inl e \<Rightarrow> (Some e, wld\<lparr>files := t1\<rparr>)
           | Inr base \<Rightarrow>
               (case render (wld\<lparr>files := t1\<rparr>) base base of
                  (Inl e, w2) \<Rightarrow> (Some e, w2)
                | (Inr src0, w2) \<Rightarrow>
                    let src = (if \<not> transparent
                               then (if im_mode src0 \<noteq> RGB then convert X src0 RGB else src0)
                               else src0)
                    in case unique_path (files w2) (out_dir @ [''icon.ico'']) of
                         Inl e \<Rightarrow> (Some e, w2)
                       | Inr ico_path \<Rightarrow>
                           (case save X (files w2) src ico_path ''ICO''
                                   (map (\<lambda>s. (s, s)) sizes) of
                              Inl e \<Rightarrow> (Some e, w2)
                            | Inr t3 \<Rightarrow> (None, w2\<lparr>files := t3\<rparr>)))))"

definition save_windows_ico ::
  "ext \<Rightarrow> world \<Rightarrow> string \<Rightarrow> path \<Rightarrow> int list \<Rightarrow> bool \<Rightarrow> real \<Rightarrow> int \<Rightarrow> qcolor
     \<Rightarrow> error option \<times> world" where
  "save_windows_ico X wld svg_path out_dir sizes transparent zoom padding bg =
     save_windows_ico_body X (svg_renderer X svg_path zoom padding transparent bg)
       wld out_dir sizes transparent"

definition save_windows_ico_png ::
  "ext \<Rightarrow> world \<Rightarrow> string \<Rightarrow> path \<Rightarrow> int list \<Rightarrow> bool \<Rightarrow> real \<Rightarrow> int \<Rightarrow> qcolor
     \<Rightarrow> error option \<times> world" where
  "save_windows_ico_png X wld src_path out_dir sizes transparent zoom padding bg =
     save_windows_ico_body X (png_renderer X src_path) wld out_dir sizes transparent"

text \<open>
  \<open>save_macos_icns\<close>, lines 184 to 208, and \<open>save_macos_icns_png\<close>, lines 481 to 501.  The
  loop of the \<open>iconutil\<close> fallback first.
\<close>

fun iconset_loop :: "ext \<Rightarrow> renderer \<Rightarrow> world \<Rightarrow> path \<Rightarrow> int list \<Rightarrow> error option \<times> world" where
  "iconset_loop X render wld iconset [] = (None, wld)"
| "iconset_loop X render wld iconset (s # ss) =
     (case render wld s s of
        (Inl e, w1) \<Rightarrow> (Some e, w1)
      | (Inr img, w1) \<Rightarrow>
          (case save X (files w1) img
                  (iconset @ [''icon_'' @ str_int s @ ''x'' @ str_int s @ ''.png'']) ''png'' [] of
             Inl e \<Rightarrow> (Some e, w1)
           | Inr t \<Rightarrow> iconset_loop X render (w1\<lparr>files := t\<rparr>) iconset ss))"

definition icns_fallback ::
  "ext \<Rightarrow> renderer \<Rightarrow> world \<Rightarrow> path \<Rightarrow> path \<Rightarrow> int list \<Rightarrow> error \<Rightarrow> error option \<times> world" where
  "icns_fallback X render wld out_dir icns_path sizes_for_check e =
     (if platform_system X = ''Darwin'' then
        (case mkdir (files wld) (out_dir @ [''icon.iconset'']) of
           Inl e' \<Rightarrow> (Some e', wld)
         | Inr t1 \<Rightarrow>
             (case iconset_loop X render (wld\<lparr>files := t1\<rparr>)
                     (out_dir @ [''icon.iconset'']) sizes_for_check of
                (Some e', w2) \<Rightarrow> (Some e', w2)
              | (None, w2) \<Rightarrow>
                  (case iconutil X (files w2) (out_dir @ [''icon.iconset'']) icns_path of
                     (returncode, stderr) \<Rightarrow>
                       if returncode \<noteq> 0
                       then (Some (RuntimeError
                               (''ICNS export failed (Pillow + iconutil): '' @ strip stderr)), w2)
                       else (None, w2\<lparr>files := (icns_path, ToolOutput) # files w2\<rparr>))))
      else (Some e, wld))"

definition save_macos_icns_body ::
  "ext \<Rightarrow> renderer \<Rightarrow> world \<Rightarrow> path \<Rightarrow> int list \<Rightarrow> bool \<Rightarrow> qcolor \<Rightarrow> error option \<times> world" where
  "save_macos_icns_body X render wld out_dir sizes_for_check transparent bg =
     (case mkdir (files wld) out_dir of
        Inl e \<Rightarrow> (Some e, wld)
      | Inr t1 \<Rightarrow>
          (case py_max sizes_for_check of
             Inl e \<Rightarrow> (Some e, wld\<lparr>files := t1\<rparr>)
           | Inr base \<Rightarrow>
               (case render (wld\<lparr>files := t1\<rparr>) base base of
                  (Inl e, w2) \<Rightarrow> (Some e, w2)
                | (Inr src0, w2) \<Rightarrow>
                    let src = (if \<not> transparent
                               then pillow_flatten X src0 (qcolor_to_rgba_tuple bg) else src0)
                    in case unique_path (files w2) (out_dir @ [''icon.icns'']) of
                         Inl e \<Rightarrow> (Some e, w2)
                       | Inr icns_path \<Rightarrow>
                           (case save X (files w2) src icns_path ''ICNS'' [] of
                              Inl e \<Rightarrow>
                                icns_fallback X render w2 out_dir icns_path sizes_for_check e
                            | Inr t3 \<Rightarrow> (None, w2\<lparr>files := t3\<rparr>)))))"

definition save_macos_icns ::
  "ext \<Rightarrow> world \<Rightarrow> string \<Rightarrow> path \<Rightarrow> int list \<Rightarrow> bool \<Rightarrow> real \<Rightarrow> int \<Rightarrow> qcolor
     \<Rightarrow> error option \<times> world" where
  "save_macos_icns X wld svg_path out_dir sizes_for_check transparent zoom padding bg =
     save_macos_icns_body X (svg_renderer X svg_path zoom padding transparent bg)
       wld out_dir sizes_for_check transparent bg"

definition save_macos_icns_png ::
  "ext \<Rightarrow> world \<Rightarrow> string \<Rightarrow> path \<Rightarrow> int list \<Rightarrow> bool \<Rightarrow> real \<Rightarrow> int \<Rightarrow> qcolor
     \<Rightarrow> error option \<times> world" where
  "save_macos_icns_png X wld src_path out_dir sizes_for_check transparent zoom padding bg =
     save_macos_icns_body X (png_renderer X src_path) wld out_dir sizes_for_check transparent bg"

text \<open>
  \<open>save_png_set\<close>, lines 215 to 223, \<open>save_wallpapers\<close>, lines 230 to 238, and their twins,
  lines 504 to 521: one loop over width and height pairs, a square size \<open>s\<close> being
  \<open>(s, s)\<close>.  The file name is not passed through \<open>unique_path\<close>.
\<close>

fun save_set_loop ::
  "ext \<Rightarrow> renderer \<Rightarrow> world \<Rightarrow> path \<Rightarrow> string \<Rightarrow> string \<Rightarrow> bool \<Rightarrow> qcolor
     \<Rightarrow> (int \<times> int) list \<Rightarrow> error option \<times> world" where
  "save_set_loop X render wld base name fmt transparent bg [] = (None, wld)"
| "save_set_loop X render wld base name fmt transparent bg (sz # szs) =
     (case render wld (fst sz) (snd sz) of
        (Inl e, w1) \<Rightarrow> (Some e, w1)
      | (Inr img, w1) \<Rightarrow>
          (case save X (files w1)
                  (if fmt \<in> set [''jpg'', ''jpeg'', ''bmp''] \<or> \<not> transparent
                   then pillow_flatten X img (qcolor_to_rgba_tuple bg) else img)
                  (base @ [name @ ''_'' @ str_int (fst sz) @ ''x'' @ str_int (snd sz) @ ''.'' @ fmt])
                  fmt [] of
             Inl e \<Rightarrow> (Some e, w1)
           | Inr t \<Rightarrow> save_set_loop X render (w1\<lparr>files := t\<rparr>) base name fmt transparent bg szs))"

definition save_set_body ::
  "ext \<Rightarrow> renderer \<Rightarrow> world \<Rightarrow> path \<Rightarrow> string \<Rightarrow> string \<Rightarrow> bool \<Rightarrow> qcolor
     \<Rightarrow> (int \<times> int) list \<Rightarrow> error option \<times> world" where
  "save_set_body X render wld base name fmt transparent bg sizes =
     (case mkdir (files wld) base of
        Inl e \<Rightarrow> (Some e, wld)
      | Inr t1 \<Rightarrow>
          save_set_loop X render (wld\<lparr>files := t1\<rparr>) base name (lower fmt) transparent bg sizes)"

definition save_png_set ::
  "ext \<Rightarrow> world \<Rightarrow> string \<Rightarrow> path \<Rightarrow> string \<Rightarrow> string \<Rightarrow> int list \<Rightarrow> bool \<Rightarrow> real \<Rightarrow> int
     \<Rightarrow> qcolor \<Rightarrow> string \<Rightarrow> error option \<times> world" where
  "save_png_set X wld svg_path out_dir label name sizes transparent zoom padding bg fmt =
     save_set_body X (svg_renderer X svg_path zoom padding transparent bg) wld
       (out_dir @ [label, name]) name fmt transparent bg (map (\<lambda>s. (s, s)) sizes)"

definition save_png_set_png ::
  "ext \<Rightarrow> world \<Rightarrow> string \<Rightarrow> path \<Rightarrow> string \<Rightarrow> string \<Rightarrow> int list \<Rightarrow> bool \<Rightarrow> real \<Rightarrow> int
     \<Rightarrow> qcolor \<Rightarrow> string \<Rightarrow> error option \<times> world" where
  "save_png_set_png X wld src_path out_dir label name sizes transparent zoom padding bg fmt =
     save_set_body X (png_renderer X src_path) wld
       (out_dir @ [label, name]) name fmt transparent bg (map (\<lambda>s. (s, s)) sizes)"

definition save_wallpapers ::
  "ext \<Rightarrow> world \<Rightarrow> string \<Rightarrow> path \<Rightarrow> string \<Rightarrow> string \<Rightarrow> (int \<times> int) list \<Rightarrow> bool \<Rightarrow> real \<Rightarrow> int
     \<Rightarrow> qcolor \<Rightarrow> string \<Rightarrow> error option \<times> world" where
  "save_wallpapers X wld svg_path out_dir label name sizes transparent zoom padding bg fmt =
     save_set_body X (svg_renderer X svg_path zoom padding transparent bg) wld
       (out_dir @ [''wallpapers'', label, name]) name fmt transparent bg sizes"

definition save_wallpapers_png ::
  "ext \<Rightarrow> world \<Rightarrow> string \<Rightarrow> path \<Rightarrow> string \<Rightarrow> string \<Rightarrow> (int \<times> int) list \<Rightarrow> bool \<Rightarrow> real \<Rightarrow> int
     \<Rightarrow> qcolor \<Rightarrow> string \<Rightarrow> error option \<times> world" where
  "save_wallpapers_png X wld src_path out_dir label name sizes transparent zoom padding bg fmt =
     save_set_body X (png_renderer X src_path) wld
       (out_dir @ [''wallpapers'', label, name]) name fmt transparent bg sizes"


section \<open>The window\<close>

text \<open>The presets, lines 43 to 52; a \<open>QSize\<close> is a pair of width and height.\<close>

definition WINDOWS_ICO_SIZES :: "int list" where
  "WINDOWS_ICO_SIZES = [16, 24, 32, 48, 64, 128, 256]"

definition MAC_ICON_SIZES :: "int list" where
  "MAC_ICON_SIZES = [16, 32, 64, 128, 256, 512, 1024]"

definition LINUX_ICON_SIZES :: "int list" where
  "LINUX_ICON_SIZES = [16, 22, 24, 32, 48, 64, 96, 128, 256, 512]"

definition ANDROID_ICON_SIZES :: "int list" where
  "ANDROID_ICON_SIZES = [48, 72, 96, 144, 192, 512]"

definition IOS_ICON_SIZES :: "int list" where
  "IOS_ICON_SIZES = [60, 76, 120, 152, 167, 180, 1024]"

definition DESKTOP_WALLPAPERS :: "(int \<times> int) list" where
  "DESKTOP_WALLPAPERS = [(1280, 720), (1920, 1080), (2560, 1440), (3840, 2160)]"

definition PHONE_WALLPAPERS :: "(int \<times> int) list" where
  "PHONE_WALLPAPERS = [(750, 1334), (1080, 1920), (1170, 2532), (1440, 3040)]"

definition TABLET_PORTRAIT_WALLPAPERS :: "(int \<times> int) list" where
  "TABLET_PORTRAIT_WALLPAPERS = [(1536, 2048), (1668, 2388), (1600, 2560)]"

definition TABLET_LANDSCAPE_WALLPAPERS :: "(int \<times> int) list" where
  "TABLET_LANDSCAPE_WALLPAPERS = [(2048, 1536), (2388, 1668), (2560, 1600)]"

text \<open>
  \<open>Path(s)\<close> for a POSIX path: the components between slashes, empty components and \<open>.\<close>
  dropped.  The root is not represented: the output tree is the file system seen from it.
\<close>

primrec split_sep :: "char \<Rightarrow> string \<Rightarrow> string list" where
  "split_sep sep [] = [[]]"
| "split_sep sep (c # cs) =
     (if c = sep then [] # split_sep sep cs
      else (case split_sep sep cs of
              [] \<Rightarrow> [[c]]
            | x # xs \<Rightarrow> (c # x) # xs))"

definition Path :: "string \<Rightarrow> path" where
  "Path s = filter (\<lambda>c. c \<noteq> [] \<and> c \<noteq> ''.'') (split_sep (CHR ''/'') s)"

text \<open>\<open>sep.join(items)\<close>.\<close>

fun str_join :: "string \<Rightarrow> string list \<Rightarrow> string" where
  "str_join sep [] = []"
| "str_join sep [x] = x"
| "str_join sep (x # y # ys) = x @ sep @ str_join sep (y # ys)"

definition str_path :: "path \<Rightarrow> string" where
  "str_path p = (if p = [] then ''.'' else str_join ''/'' p)"

text \<open>\<open>str(e)\<close> of an exception: its message.\<close>

definition str_error :: "error \<Rightarrow> string" where
  "str_error e =
     (case e of
        OSError m \<Rightarrow> m
      | ValueError m \<Rightarrow> m
      | ZeroDivisionError \<Rightarrow> ''division by zero''
      | RuntimeError m \<Rightarrow> m)"

text \<open>
  What \<open>on_create\<close> and \<open>update_preview\<close> read of the window: the loaded path, the
  background colour and the current values of the widgets.
\<close>

record app =
  app_svg_path :: "string option"
  bgColor :: qcolor
  profileCombo :: string
  formatCombo :: string
  widthSpin :: int
  heightSpin :: int
  paddingSpin :: int
  transparentBg :: bool
  zoomSlider :: int

text \<open>\<open>on_profile_changed\<close>, lines 353 to 376: the formats offered for a profile.\<close>

definition on_profile_changed :: "string \<Rightarrow> string list" where
  "on_profile_changed profile =
     (if profile = ''Custom export'' then [''PNG'', ''JPG'', ''PDF'', ''BMP'']
      else if profile = ''Create Windows icon (.ico)'' then [''ICO'']
      else if profile = ''Create macOS icon (.icns)'' then [''ICNS'']
      else [''PNG'', ''JPG'', ''BMP''])"

datatype dialog =
  Warning string string
| Information string string
| Critical string string

text \<open>
  \<open>on_create\<close>, lines 432 to 571.  The two chains of \<open>if\<close> and \<open>elif\<close> first: the one for a
  raster source, whose last \<open>else\<close> warns and returns (the value \<open>None\<close> here), and the one
  for an SVG source, which does nothing for a profile it does not know.
\<close>

definition export_png ::
  "ext \<Rightarrow> world \<Rightarrow> string \<Rightarrow> path \<Rightarrow> string \<Rightarrow> string \<Rightarrow> string \<Rightarrow> int \<Rightarrow> int \<Rightarrow> bool \<Rightarrow> real
     \<Rightarrow> int \<Rightarrow> qcolor \<Rightarrow> (error option \<times> world) option" where
  "export_png X wld src out_dir profile name fmt w h transparent zoom padding bg =
     (if profile = ''Custom export'' then
        Some (save_custom_png X wld src (out_dir @ [''custom'']) name w h fmt transparent zoom padding bg)
      else if profile = ''Create Windows icon (.ico)'' then
        Some (save_windows_ico_png X wld src (out_dir @ [''windows'']) WINDOWS_ICO_SIZES
                transparent zoom padding bg)
      else if profile = ''Create macOS icon (.icns)'' then
        Some (save_macos_icns_png X wld src (out_dir @ [''macos'']) MAC_ICON_SIZES
                transparent zoom padding bg)
      else if profile = ''Create Linux icon PNGs'' then
        Some (save_png_set_png X wld src out_dir ''linux'' name LINUX_ICON_SIZES
                transparent zoom padding bg fmt)
      else if profile = ''Create Android app icons'' then
        Some (save_png_set_png X wld src out_dir ''android'' name ANDROID_ICON_SIZES
                transparent zoom padding bg fmt)
      else if profile = ''Create iOS app icons'' then
        Some (save_png_set_png X wld src out_dir ''ios'' name IOS_ICON_SIZES
                transparent zoom padding bg fmt)
      else if profile = ''Export standard sizes: Computer'' then
        Some (save_wallpapers_png X wld src out_dir ''desktop'' name DESKTOP_WALLPAPERS
                transparent zoom padding bg fmt)
      else if profile = ''Export standard sizes: Phone'' then
        Some (save_wallpapers_png X wld src out_dir ''phone'' name PHONE_WALLPAPERS
                transparent zoom padding bg fmt)
      else if profile = ''Export tablet sizes: Portrait'' then
        Some (save_wallpapers_png X wld src out_dir ''tablet_portrait'' name
                TABLET_PORTRAIT_WALLPAPERS transparent zoom padding bg fmt)
      else if profile = ''Export tablet sizes: Landscape'' then
        Some (save_wallpapers_png X wld src out_dir ''tablet_landscape'' name
                TABLET_LANDSCAPE_WALLPAPERS transparent zoom padding bg fmt)
      else None)"

definition export_svg ::
  "ext \<Rightarrow> world \<Rightarrow> string \<Rightarrow> path \<Rightarrow> string \<Rightarrow> string \<Rightarrow> string \<Rightarrow> int \<Rightarrow> int \<Rightarrow> bool \<Rightarrow> real
     \<Rightarrow> int \<Rightarrow> qcolor \<Rightarrow> error option \<times> world" where
  "export_svg X wld src out_dir profile name fmt w h transparent zoom padding bg =
     (if profile = ''Custom export'' then
        save_custom X wld src (out_dir @ [''custom'']) name w h fmt transparent zoom padding bg
      else if profile = ''Create Windows icon (.ico)'' then
        save_windows_ico X wld src (out_dir @ [''windows'']) WINDOWS_ICO_SIZES
          transparent zoom padding bg
      else if profile = ''Create macOS icon (.icns)'' then
        save_macos_icns X wld src (out_dir @ [''macos'']) MAC_ICON_SIZES
          transparent zoom padding bg
      else if profile = ''Create Linux icon PNGs'' then
        save_png_set X wld src out_dir ''linux'' name LINUX_ICON_SIZES
          transparent zoom padding bg fmt
      else if profile = ''Create Android app icons'' then
        save_png_set X wld src out_dir ''android'' name ANDROID_ICON_SIZES
          transparent zoom padding bg fmt
      else if profile = ''Create iOS app icons'' then
        save_png_set X wld src out_dir ''ios'' name IOS_ICON_SIZES
          transparent zoom padding bg fmt
      else if profile = ''Export standard sizes: Computer'' then
        save_wallpapers X wld src out_dir ''desktop'' name DESKTOP_WALLPAPERS
          transparent zoom padding bg fmt
      else if profile = ''Export standard sizes: Phone'' then
        save_wallpapers X wld src out_dir ''phone'' name PHONE_WALLPAPERS
          transparent zoom padding bg fmt
      else if profile = ''Export tablet sizes: Portrait'' then
        save_wallpapers X wld src out_dir ''tablet_portrait'' name TABLET_PORTRAIT_WALLPAPERS
          transparent zoom padding bg fmt
      else if profile = ''Export tablet sizes: Landscape'' then
        save_wallpapers X wld src out_dir ''tablet_landscape'' name TABLET_LANDSCAPE_WALLPAPERS
          transparent zoom padding bg fmt
      else (None, wld))"

text \<open>
  The end of \<open>on_create\<close>: the message box after the \<open>try\<close> block, or the one of its
  \<open>except\<close> clause.
\<close>

definition report :: "path \<Rightarrow> error option \<times> world \<Rightarrow> dialog option \<times> world" where
  "report out_dir r =
     (case fst r of
        None \<Rightarrow> (Some (Information ''Done''
                         (''Export complete to:'' @ [CHR 0x0A] @ str_path out_dir)), snd r)
      | Some e \<Rightarrow> (Some (Critical ''Error'' (str_error e)), snd r))"

text \<open>
  \<open>out\<close> is the answer of \<open>ask_output_dir\<close>, \<open>None\<close> when the dialog is cancelled.  The
  result is the message box shown, if any, and the state reached.
\<close>

definition on_create :: "ext \<Rightarrow> app \<Rightarrow> string option \<Rightarrow> world \<Rightarrow> dialog option \<times> world" where
  "on_create X self out wld =
     (case app_svg_path self of
        None \<Rightarrow> (Some (Warning ''No source'' ''Please load an SVG or PNG file first.''), wld)
      | Some src \<Rightarrow>
          if src = [] then
            (Some (Warning ''No source'' ''Please load an SVG or PNG file first.''), wld)
          else
            (case out of
               None \<Rightarrow> (None, wld)
             | Some out_str \<Rightarrow>
                 if out_str = [] then (None, wld)
                 else
                   let out_dir = Path out_str;
                       profile = profileCombo self;
                       fmt = lower (formatCombo self);
                       w = widthSpin self;
                       h = heightSpin self;
                       zoom = float_round X (of_int (zoomSlider self) / 100);
                       padding = paddingSpin self;
                       transparent = transparentBg self;
                       bg = bgColor self;
                       name = path_stem (Path src)
                   in
                     if suffix ''.png'' (lower src) then
                       (case export_png X wld src out_dir profile name fmt w h
                               transparent zoom padding bg of
                          None \<Rightarrow>
                            (Some (Warning ''Unsupported''
                                     (''Profile '' @ [CHR 0x27] @ profile @ [CHR 0x27] @
                                      '' is not supported for PNG sources.'')), wld)
                        | Some r \<Rightarrow> report out_dir r)
                     else
                       report out_dir
                         (export_svg X wld src out_dir profile name fmt w h
                            transparent zoom padding bg)))"

text \<open>
  \<open>update_preview\<close>, lines 396 to 429: what the preview label shows, a text or the pixmap
  made of the rendered image.
\<close>

datatype preview = Text string | Pixmap image

definition update_preview :: "ext \<Rightarrow> app \<Rightarrow> preview" where
  "update_preview X self =
     (case app_svg_path self of
        None \<Rightarrow> Text ''No source loaded''
      | Some src \<Rightarrow>
          if src = [] then Text ''No source loaded''
          else
            let profile = profileCombo self;
                wh = (if profile = ''Create Windows icon (.ico)''
                      then (case py_max WINDOWS_ICO_SIZES of Inl e \<Rightarrow> Inl e | Inr m \<Rightarrow> Inr (m, m))
                      else if profile = ''Create macOS icon (.icns)''
                      then (case py_max MAC_ICON_SIZES of Inl e \<Rightarrow> Inl e | Inr m \<Rightarrow> Inr (m, m))
                      else Inr (widthSpin self, heightSpin self))
            in case (case wh of
                       Inl e \<Rightarrow> Inl e
                     | Inr (w, h) \<Rightarrow>
                         if suffix ''.png'' (lower src) then
                           (case image_open X src of
                              Inl e \<Rightarrow> Inl e
                            | Inr pil \<Rightarrow> resize X (convert X pil RGBA) (w, h))
                         else
                           render_svg_to_pillow X src w h
                             (float_round X (of_int (zoomSlider self) / 100))
                             (paddingSpin self) (transparentBg self) (Some (bgColor self))) of
                 Inl e \<Rightarrow> Text (''Preview error:'' @ [CHR 0x0A] @ str_error e)
               | Inr pil \<Rightarrow> Pixmap pil)"

section \<open>Start of the program\<close>

text \<open>
  Lines 14 to 31: \<open>import cairosvg\<close> either succeeds, or raises \<open>OSError\<close> (the Cairo
  library cannot be loaded), or raises another exception (the package is missing).  Only
  \<open>OSError\<close> is caught: the message is printed on the standard error stream and the
  interpreter exits with status 1.  Another exception is not caught and ends the interpreter with a
  traceback.
\<close>

datatype import_result = Imported | ImportOSError string | ImportOtherError string

datatype startup = Running | SysExit int string | Uncaught string

definition import_cairosvg :: "ext \<Rightarrow> import_result \<Rightarrow> startup" where
  "import_cairosvg X r =
     (case r of
        Imported \<Rightarrow> Running
      | ImportOtherError m \<Rightarrow> Uncaught m
      | ImportOSError e \<Rightarrow>
          SysExit 1
            (str_join [CHR 0x0A]
               ([[CHR 0x0A] @ ''ERROR: The Cairo graphics library required by CairoSVG is not installed.'',
                 e,
                 [CHR 0x0A] @ ''To fix this, follow the instructions for your platform:'' @ [CHR 0x0A]] @
                [if platform_system X = ''Darwin'' then
                   ''macOS: Run '' @ [CHR 0x27] @ ''brew install cairo'' @ [CHR 0x27] @
                   '' in Terminal. If you don'' @ [CHR 0x27] @
                   ''t have Homebrew, install it from https://brew.sh first.''
                 else if platform_system X = ''Windows'' then
                   ''Windows: Install GTK3 and Cairo using MSYS2 or download prebuilt binaries. See https://pycairo.readthedocs.io/en/latest/getting_started.html#windows.''
                 else
                   ''Linux: Run '' @ [CHR 0x27] @ ''sudo apt-get install libcairo2'' @ [CHR 0x27] @
                   '' or use your distro'' @ [CHR 0x27] @ ''s package manager.'']) @ [CHR 0x0A]))"

text \<open>
  A run of the program: the import, then the window, where each click on the create
  button, with the state of the window and the answer of the directory dialog at that
  moment, runs \<open>on_create\<close>.  Nothing after line 31 runs when the import ends the
  interpreter.
\<close>

fun clicks :: "ext \<Rightarrow> (app \<times> string option) list \<Rightarrow> world \<Rightarrow> dialog option list \<times> world" where
  "clicks X [] wld = ([], wld)"
| "clicks X (c # cs) wld =
     (case on_create X (fst c) (snd c) wld of
        (d, w1) \<Rightarrow> (case clicks X cs w1 of (ds, w2) \<Rightarrow> (d # ds, w2)))"

definition program ::
  "ext \<Rightarrow> import_result \<Rightarrow> (app \<times> string option) list \<Rightarrow> world
     \<Rightarrow> startup \<times> dialog option list \<times> world" where
  "program X r cs wld =
     (case import_cairosvg X r of
        Running \<Rightarrow> (case clicks X cs wld of (ds, w1) \<Rightarrow> (Running, ds, w1))
      | SysExit code err \<Rightarrow> (SysExit code err, [], wld)
      | Uncaught m \<Rightarrow> (Uncaught m, [], wld))"

section \<open>Assumptions on what comes from outside\<close>

text \<open>
  Pillow stores the two dimensions of an image in C integers, so they lie below \<open>2^31\<close>;
  \<open>rasteriser_ok\<close> says so of every image the rasteriser hands back.
\<close>

definition image_dims_ok :: "image \<Rightarrow> bool" where
  "image_dims_ok img \<longleftrightarrow>
     0 \<le> fst (im_size img) \<and> fst (im_size img) < 2 ^ 31 \<and>
     0 \<le> snd (im_size img) \<and> snd (im_size img) < 2 ^ 31"

definition rasteriser_ok :: "ext \<Rightarrow> bool" where
  "rasteriser_ok X \<longleftrightarrow>
     (\<forall>url w h bg img. svg2png X url w h bg = Inr img \<longrightarrow> image_dims_ok img)"

section \<open>Reference environments\<close>

text \<open>
  Environments on which the theorems are instantiated.  In \<open>oversize_ext\<close> floats are
  exact and the rasteriser always answers with a 112 by 80 image, larger than what it was
  asked for, so that the safety resize runs.
\<close>

definition oversize_ext :: ext where
  "oversize_ext =
     \<lparr>float_round = (\<lambda>x. x),
      svg2png = (\<lambda>url w h bg. Inr (Image_new RGBA (112, 80) (0, 0, 0, 255))),
      image_open = (\<lambda>p. Inr (Image_new RGBA (4, 4) (10, 20, 30, 40))),
      convert_px = (\<lambda>m m' p. case p of (r, g, b, a) \<Rightarrow> (r, g, b, 255)),
      composite_px = (\<lambda>s d. s),
      blend_px = (\<lambda>m d s. if m = 0 then d else s),
      resample = (\<lambda>img sz x y. im_px img 0 0),
      strict_dest = True,
      save_error = (\<lambda>img p fmt. None),
      platform_system = ''Linux'',
      iconutil = (\<lambda>tree iconset dest. (0, []))\<rparr>"

text \<open>A window in which a raster source is loaded, at the custom profile.\<close>

definition demo_app :: app where
  "demo_app = \<lparr>app_svg_path = Some ''logo.PNG'', bgColor = QColor_white,
      profileCombo = ''Custom export'', formatCombo = ''PNG'', widthSpin = 64, heightSpin = 48,
      paddingSpin = 0, transparentBg = True, zoomSlider = 100\<rparr>"

section \<open>A backend that cannot be loaded\<close>

text \<open>A window in which an SVG source is loaded, and the state before any export.\<close>

definition svg_app :: app where
  "svg_app = \<lparr>app_svg_path = Some ''icon.svg'', bgColor = QColor_white,
      profileCombo = ''Custom export'', formatCombo = ''PNG'', widthSpin = 64, heightSpin = 48,
      paddingSpin = 4, transparentBg = True, zoomSlider = 100\<rparr>"

definition empty_world :: world where
  "empty_world = \<lparr>files = [], raster_log = []\<rparr>"

section \<open>Float rounding and the safety resize\<close>

lemma fl_mono: "ieee_rounding fl \<Longrightarrow> x \<le> y \<Longrightarrow> fl x \<le> fl y"
  by (simp add: ieee_rounding_def)

lemma fl_one: "ieee_rounding fl \<Longrightarrow> fl 1 = 1"
proof -
  assume "ieee_rounding fl"
  moreover have "\<bar>1::int\<bar> \<le> 2 ^ 53" by simp
  ultimately have "fl (of_int 1) = of_int 1" unfolding ieee_rounding_def by blast
  then show ?thesis by simp
qed

lemma fl_rel_up:
  assumes "ieee_rounding fl" "1 / 2 ^ 31 \<le> x" "x \<le> 2 ^ 32"
  shows "fl x \<le> x * (1 + 1 / 2 ^ 53)"
proof -
  have a: "(1::real) / 2 ^ 1022 \<le> 1 / 2 ^ 31" by simp
  have b: "(2::real) ^ 32 \<le> 2 ^ 1023" by simp
  have "(0::real) < 1 / 2 ^ 31" by simp
  then have pos: "0 < x" using assms(2) by linarith
  have "1 / 2 ^ 1022 \<le> \<bar>x\<bar> \<and> \<bar>x\<bar> \<le> 2 ^ 1023" using a b assms(2,3) pos by linarith
  then have "\<bar>fl x - x\<bar> \<le> \<bar>x\<bar> / 2 ^ 53" using assms(1) unfolding ieee_rounding_def by blast
  then have "fl x \<le> x + x / 2 ^ 53" using pos by linarith
  then show ?thesis by (simp add: algebra_simps)
qed

text \<open>the quotient work / content, for dimensions below 2^31\<close>
lemma quot_range:
  fixes W c :: int
  assumes "1 \<le> W" "W < 2 ^ 31" "1 \<le> c" "c < 2 ^ 31"
  shows "1 / 2 ^ 31 \<le> (of_int W / of_int c :: real)" "(of_int W / of_int c :: real) \<le> 2 ^ 32"
proof -
  have c: "(of_int c :: real) \<le> 2 ^ 31" "1 \<le> (of_int c :: real)" using assms by (simp_all add: of_int_le_iff[symmetric] del: of_int_le_iff) 
  have w: "(of_int W :: real) \<le> 2 ^ 31" "1 \<le> (of_int W :: real)" using assms  by (simp_all add: of_int_le_iff[symmetric] del: of_int_le_iff)
  have "1 / 2 ^ 31 \<le> 1 / (of_int c :: real)" using c by (simp add: frac_le)
  also have "\<dots> \<le> of_int W / of_int c" using w c by (simp add: divide_right_mono)
  finally show "1 / 2 ^ 31 \<le> (of_int W / of_int c :: real)" .
  have "(of_int W / of_int c :: real) \<le> of_int W / 1" using w c by (intro divide_left_mono) auto
  then show "(of_int W / of_int c :: real) \<le> 2 ^ 32" using w by simp
qed

lemma clamp_bound:
  fixes W c :: int
  assumes R: "ieee_rounding fl"
    and W: "1 \<le> W" "W < 2 ^ 31" and c: "1 \<le> c" "c < 2 ^ 31"
    and s: "s \<le> fl (of_int W / of_int c)"
  shows "max 1 (py_int (fl (of_int c * s))) \<le> W"
proof (cases "of_int c * s \<le> (1::real)")
  case True
  then have "fl (of_int c * s) \<le> 1" using fl_mono[OF R True] fl_one[OF R] by simp
  then have "py_int (fl (of_int c * s)) \<le> 1" unfolding py_int_def by (auto simp: floor_le_iff ceiling_le_iff) 
  then show ?thesis using W by simp
next
  case False
  let ?q = "of_int W / of_int c :: real"
  let ?e = "1 + 1 / 2 ^ 53 :: real"
  have cpos: "0 < (of_int c :: real)" using c by simp
  have q: "fl ?q \<le> ?q * ?e" using fl_rel_up[OF R quot_range[OF W c]] .
  have "of_int c * s \<le> of_int c * (?q * ?e)" using s q cpos by (meson mult_left_mono order_trans less_imp_le)
  also have "\<dots> = of_int W * ?e" using cpos by simp
  finally have cs: "of_int c * s \<le> of_int W * ?e" .
  have "W \<le> 2 ^ 31 - 1" using W by simp
  then have "(of_int W :: real) \<le> of_int (2 ^ 31 - 1)" by (simp only: of_int_le_iff)
  then have Wr: "(of_int W :: real) \<le> 2 ^ 31 - 1" by simp
  have W1: "1 \<le> (of_int W :: real)" using W by simp
  have "of_int W * ?e \<le> 2 ^ 32" using Wr by simp
  then have up: "of_int c * s \<le> 2 ^ 32" using cs by linarith
  have lo: "1 / 2 ^ 31 \<le> of_int c * s" using False by simp
  have "fl (of_int c * s) \<le> of_int c * s * ?e" using fl_rel_up[OF R lo up] .
  also have "\<dots> \<le> of_int W * ?e * ?e"
    by (rule mult_right_mono[OF cs]) simp
  also have "\<dots> < of_int W + 1" using Wr W1 by (simp add: algebra_simps)
  finally have "fl (of_int c * s) < of_int (W + 1)" by simp
  then have "py_int (fl (of_int c * s)) \<le> W" unfolding py_int_def
    using W1 by (auto simp: floor_le_iff ceiling_le_iff)
  then show ?thesis using W by simp
qed

lemma no_clamp_fits:
  fixes W c :: int
  assumes R: "ieee_rounding fl"
    and W: "1 \<le> W" "W < 2 ^ 31" and c: "1 \<le> c" "c < 2 ^ 31"
    and s: "1 \<le> fl (of_int W / of_int c)"
  shows "c \<le> W"
proof (rule ccontr)
  assume "\<not> c \<le> W"
  then have "W + 1 \<le> c" by simp
  then have "(of_int (W + 1) :: real) \<le> of_int c" by (simp only: of_int_le_iff)
  then have cW: "of_int W + 1 \<le> (of_int c :: real)" by simp
  let ?q = "of_int W / of_int c :: real"
  let ?e = "1 + 1 / 2 ^ 53 :: real"
  have cpos: "0 < (of_int c :: real)" using c by simp
  have "W \<le> 2 ^ 31 - 1" using W by simp
  then have "(of_int W :: real) \<le> of_int (2 ^ 31 - 1)" by (simp only: of_int_le_iff)
  then have Wr: "(of_int W :: real) \<le> 2 ^ 31 - 1" by simp
  have W1: "1 \<le> (of_int W :: real)" using W by simp
  have "fl ?q \<le> ?q * ?e" using fl_rel_up[OF R quot_range[OF W c]] .
  then have "1 \<le> ?q * ?e" using s by linarith
  then have "of_int c \<le> of_int W * ?e" using cpos by (simp add: field_simps)
  then have "of_int W + 1 \<le> of_int W * ?e" using cW by linarith
  then show False using Wr W1 by (simp add: algebra_simps)
qed

lemma im_size_convert: "im_size (convert X img m) = im_size img"
  by (simp add: convert_def)

lemma im_mode_convert: "im_mode (convert X img m) = m"
  by (simp add: convert_def)

lemma safety_resize_mode:
  "safety_resize X W H c = Inr r \<Longrightarrow> im_mode r = im_mode c"
  unfolding safety_resize_def Let_def resize_def
  by (auto split: if_splits)

lemma safety_resize_fits:
  assumes R: "ieee_rounding (float_round X)"
    and W: "1 \<le> W" "W < 2 ^ 31" and H: "1 \<le> H" "H < 2 ^ 31"
    and c: "image_dims_ok c"
    and r: "safety_resize X W H c = Inr r"
  shows "fst (im_size r) \<le> W \<and> snd (im_size r) \<le> H"
proof -
  let ?cw = "fst (im_size c)" and ?ch = "snd (im_size c)"
  let ?a = "float_round X (of_int W / of_int ?cw)" and ?b = "float_round X (of_int H / of_int ?ch)"
  let ?s = "min ?a (min ?b 1)"
  from r have nz: "?cw \<noteq> 0" "?ch \<noteq> 0"
    unfolding safety_resize_def Let_def by (auto split: if_splits)
  with c have cw: "1 \<le> ?cw" "?cw < 2 ^ 31" and ch: "1 \<le> ?ch" "?ch < 2 ^ 31"
    unfolding image_dims_ok_def by auto
  show ?thesis
  proof (cases "?s < 1")
    case True
    with r nz have "resize X c (max 1 (py_int (float_round X (of_int ?cw * ?s))),
                               max 1 (py_int (float_round X (of_int ?ch * ?s)))) = Inr r"
      unfolding safety_resize_def Let_def by simp
    then have sz: "im_size r = (max 1 (py_int (float_round X (of_int ?cw * ?s))),
                               max 1 (py_int (float_round X (of_int ?ch * ?s))))"
      unfolding resize_def by (auto split: if_splits)
    have "max 1 (py_int (float_round X (of_int ?cw * ?s))) \<le> W"
      by (rule clamp_bound[OF R W cw]) simp
    moreover have "max 1 (py_int (float_round X (of_int ?ch * ?s))) \<le> H"
      by (rule clamp_bound[OF R H ch]) simp
    ultimately show ?thesis using sz by simp
  next
    case False
    with r nz have "r = c" unfolding safety_resize_def Let_def by simp
    moreover from False have "1 \<le> ?a" "1 \<le> ?b" by simp_all
    then have "?cw \<le> W" "?ch \<le> H"
      using no_clamp_fits[OF R W cw] no_clamp_fits[OF R H ch] by blast+
    ultimately show ?thesis by simp
  qed
qed

lemma render_content_Inr:
  assumes "render_content X svg_path width height zoom padding transparent bg_color = Inr (a, b, content)"
  obtains opened rw rh bgc where
    "a = max 1 width" "b = max 1 height"
    "svg2png X svg_path rw rh bgc = Inr opened"
    "safety_resize X (max 1 (max 1 width - 2 * padding)) (max 1 (max 1 height - 2 * padding))
              (convert X opened (if transparent then RGBA else RGB)) = Inr content"
proof -
  let ?W = "max 1 (max 1 width - 2 * padding)" and ?H = "max 1 (max 1 height - 2 * padding)"
  let ?rs = "render_size X ?W ?H zoom"
  let ?bg = "case bg_color of Some c \<Rightarrow> c | None \<Rightarrow> QColor_white"
  let ?bgc = "if transparent then None else Some (red ?bg, green ?bg, blue ?bg)"
  from assms obtain opened where o: "svg2png X svg_path (fst ?rs) (snd ?rs) ?bgc = Inr opened"
    unfolding render_content_def Let_def by (cases "svg2png X svg_path (fst ?rs) (snd ?rs) ?bgc") simp_all
  with assms have r: "a = max 1 width \<and> b = max 1 height \<and> 
      safety_resize X ?W ?H (convert X opened (if transparent then RGBA else RGB)) = Inr content"
    unfolding render_content_def Let_def by (auto split: sum.splits)
  show thesis
    by (rule that[OF conjunct1[OF r] conjunct1[OF conjunct2[OF r]] o conjunct2[OF conjunct2[OF r]]])
qed

lemma ieee_rounding_id: "ieee_rounding (\<lambda>x. x)"
  by (simp add: ieee_rounding_def)

text \<open>
  Claim C1.  Whenever the padding is non-negative and twice the padding is below both the
  width and the height, the content that \<open>render_svg_to_pillow\<close> places on the canvas
  (the result of lines 103 to 134) is at most \<open>width - 2 * padding\<close> wide and at most
  \<open>height - 2 * padding\<close> high.  This holds for every zoom (the zoom is clamped before
  use) and for every image the rasteriser answers with, of whatever size: the safety resize
  brings an oversized content back into the work area.  Floats are IEEE doubles and image
  dimensions are Pillow's, below \<open>2^31\<close>.
\<close>

theorem content_within_work_area:
  assumes "ieee_rounding (float_round X)" and "rasteriser_ok X"
    and "0 \<le> padding" and "2 * padding < min width height"
    and "width < 2 ^ 31" and "height < 2 ^ 31"
    and "render_content X svg_path width height zoom padding transparent bg_color
           = Inr (canvas_w, canvas_h, content)"
  shows "fst (im_size content) \<le> width - 2 * padding \<and>
         snd (im_size content) \<le> height - 2 * padding"
proof -
  from assms(7) obtain opened rw rh bgc where
    o: "svg2png X svg_path rw rh bgc = Inr opened" and
    s: "safety_resize X (max 1 (max 1 width - 2 * padding)) (max 1 (max 1 height - 2 * padding))
              (convert X opened (if transparent then RGBA else RGB)) = Inr content"
    by (rule render_content_Inr)
  from assms(3,4) have W: "max 1 (max 1 width - 2 * padding) = width - 2 * padding"
    and H: "max 1 (max 1 height - 2 * padding) = height - 2 * padding" by auto
  from assms(2) o have "image_dims_ok opened" unfolding rasteriser_ok_def by blast
  then have d: "image_dims_ok (convert X opened (if transparent then RGBA else RGB))"
    unfolding image_dims_ok_def by (simp add: im_size_convert)
  have "1 \<le> width - 2 * padding" "width - 2 * padding < 2 ^ 31"
       "1 \<le> height - 2 * padding" "height - 2 * padding < 2 ^ 31"
    using assms(3-6) by auto
  from safety_resize_fits[OF assms(1) this d s[unfolded W H]] show ?thesis .
qed

lemma oversize_render_content:
  "render_content oversize_ext ''icon.svg'' 64 48 1 4 True None =
     Inr (64, 48, \<lparr>im_mode = RGBA, im_size = (56, 40), im_px = (\<lambda>x y. (0, 0, 0, 255))\<rparr>)"
  by (simp add: render_content_def render_size_def safety_resize_def resize_def convert_def
        Image_new_def oversize_ext_def py_int_def Let_def)

theorem content_within_work_area_witness:
  "ieee_rounding (float_round oversize_ext) \<and> rasteriser_ok oversize_ext \<and>
   (0::int) \<le> 4 \<and> (2::int) * 4 < min 64 48 \<and> (64::int) < 2 ^ 31 \<and> (48::int) < 2 ^ 31 \<and>
   (\<exists>c. render_content oversize_ext ''icon.svg'' 64 48 1 4 True None = Inr (64, 48, c) \<and>
        im_size c = (56, 40) \<and>
        fst (im_size c) \<le> 64 - 2 * 4 \<and> snd (im_size c) \<le> 48 - 2 * 4)"
proof -
  have r: "ieee_rounding (float_round oversize_ext)"
    by (simp add: oversize_ext_def ieee_rounding_id)
  have k: "rasteriser_ok oversize_ext"
    by (auto simp: rasteriser_ok_def oversize_ext_def image_dims_ok_def Image_new_def)
  have p: "(0::int) \<le> 4" "(2::int) * 4 < min 64 48" "(64::int) < 2 ^ 31" "(48::int) < 2 ^ 31"
    by simp_all
  note fit = content_within_work_area[OF r k p oversize_render_content]
  show ?thesis using r k fit oversize_render_content by simp
qed

section \<open>Flattening\<close>

lemma im_mode_paste_mask: "im_mode (paste_mask X canvas src off msk) = im_mode canvas"
  by (simp add: paste_mask_def Let_def)

lemma im_mode_pillow_flatten: "im_mode (pillow_flatten X img bg) = RGB"
  by (cases bg) (simp add: pillow_flatten_def im_mode_convert im_mode_paste_mask Image_new_def Let_def)

text \<open>
  Claim C9.  For every image and every background colour, flattening a flattened image
  changes nothing: \<open>pillow_flatten\<close> always answers with an \<open>RGB\<close> image, and on an
  \<open>RGB\<close> image it is \<open>convert("RGB")\<close>, a copy.  On an input whose mode is not \<open>RGBA\<close>
  the flatten is the conversion to \<open>RGB\<close> and nothing else.
\<close>

theorem pillow_flatten_idempotent:
  "pillow_flatten X (pillow_flatten X img bg) bg = pillow_flatten X img bg \<and>
   (im_mode img \<noteq> RGBA \<longrightarrow> pillow_flatten X img bg = convert X img RGB)"
proof
  have "im_mode (pillow_flatten X img bg) = RGB" by (rule im_mode_pillow_flatten)
  then show "pillow_flatten X (pillow_flatten X img bg) bg = pillow_flatten X img bg"
    by (simp add: pillow_flatten_def[of X "pillow_flatten X img bg"] convert_def)
  show "im_mode img \<noteq> RGBA \<longrightarrow> pillow_flatten X img bg = convert X img RGB"
    by (simp add: pillow_flatten_def)
qed

theorem pillow_flatten_idempotent_witness:
  "im_mode (Image_new (OtherMode ''L'') (2, 2) (7, 7, 7, 255)) \<noteq> RGBA \<and>
   pillow_flatten oversize_ext (Image_new (OtherMode ''L'') (2, 2) (7, 7, 7, 255)) (255, 0, 0, 255)
     = convert oversize_ext (Image_new (OtherMode ''L'') (2, 2) (7, 7, 7, 255)) RGB \<and>
   pillow_flatten oversize_ext
     (pillow_flatten oversize_ext (Image_new RGBA (2, 2) (9, 8, 7, 0)) (255, 0, 0, 255)) (255, 0, 0, 255)
     = pillow_flatten oversize_ext (Image_new RGBA (2, 2) (9, 8, 7, 0)) (255, 0, 0, 255)"
proof -
  have m: "im_mode (Image_new (OtherMode ''L'') (2, 2) (7, 7, 7, 255)) \<noteq> RGBA"
    by (simp add: Image_new_def)
  from pillow_flatten_idempotent[of oversize_ext "Image_new (OtherMode ''L'') (2, 2) (7, 7, 7, 255)" "(255, 0, 0, 255)"] m
  have "pillow_flatten oversize_ext (Image_new (OtherMode ''L'') (2, 2) (7, 7, 7, 255)) (255, 0, 0, 255)
     = convert oversize_ext (Image_new (OtherMode ''L'') (2, 2) (7, 7, 7, 255)) RGB" by blast
  with m pillow_flatten_idempotent[of oversize_ext "Image_new RGBA (2, 2) (9, 8, 7, 0)" "(255, 0, 0, 255)"]
  show ?thesis by blast
qed

section \<open>The composited canvas\<close>

lemma safety_resize_error:
  "safety_resize X W H c = Inl e \<Longrightarrow> e = ZeroDivisionError"
  unfolding safety_resize_def Let_def resize_def
  by (auto split: if_splits)

lemma render_content_Inl:
  assumes "render_content X svg_path width height zoom padding transparent bg_color = Inl e"
  shows "(\<exists>rw rh bgc. svg2png X svg_path rw rh bgc = Inl e) \<or> e = ZeroDivisionError"
proof -
  let ?W = "max 1 (max 1 width - 2 * padding)" and ?H = "max 1 (max 1 height - 2 * padding)"
  let ?rs = "render_size X ?W ?H zoom"
  let ?bg = "case bg_color of Some c \<Rightarrow> c | None \<Rightarrow> QColor_white"
  let ?bgc = "if transparent then None else Some (red ?bg, green ?bg, blue ?bg)"
  show ?thesis
  proof (cases "svg2png X svg_path (fst ?rs) (snd ?rs) ?bgc")
    case (Inl e')
    with assms have "e' = e" unfolding render_content_def Let_def by simp
    with Inl show ?thesis by blast
  next
    case (Inr opened)
    with assms obtain e' where
      "safety_resize X ?W ?H (convert X opened (if transparent then RGBA else RGB)) = Inl e'" "e' = e"
      unfolding render_content_def Let_def by (auto split: sum.splits)
    then show ?thesis using safety_resize_error by blast
  qed
qed

lemma render_content_mode:
  assumes "render_content X svg_path width height zoom padding transparent bg_color = Inr (a, b, content)"
  shows "im_mode content = (if transparent then RGBA else RGB)"
proof -
  from assms obtain opened rw rh bgc where
    "safety_resize X (max 1 (max 1 width - 2 * padding)) (max 1 (max 1 height - 2 * padding))
              (convert X opened (if transparent then RGBA else RGB)) = Inr content"
    by (rule render_content_Inr)
  from safety_resize_mode[OF this] show ?thesis by (simp add: im_mode_convert)
qed

lemma render_content_canvas:
  assumes "render_content X svg_path width height zoom padding transparent bg_color = Inr (a, b, content)"
  shows "a = max 1 width \<and> b = max 1 height"
  using assms by (rule render_content_Inr) simp


lemma place_on_canvas_Inl:
  assumes "place_on_canvas X transparent bg_color (a, b, content) = Inl e"
  shows "transparent \<and> strict_dest X \<and> e = ValueError ''Destination must be non-negative''"
  using assms unfolding place_on_canvas_def Let_def alpha_composite_def paste_def paste_mask_def Image_new_def
  by (auto split: if_splits)






lemma oversize_render_returns:
  "\<exists>img. render_svg_to_pillow oversize_ext ''icon.svg'' 64 48 1 4 True None = Inr img"
proof -
  have s: "strict_dest oversize_ext" by (simp add: oversize_ext_def)
  have "render_svg_to_pillow oversize_ext ''icon.svg'' 64 48 1 4 True None =
        place_on_canvas oversize_ext True None
          (64, 48, \<lparr>im_mode = RGBA, im_size = (56, 40), im_px = (\<lambda>x y. (0, 0, 0, 255))\<rparr>)"
    by (simp add: render_svg_to_pillow_def oversize_render_content)
  then show ?thesis
    by (simp add: place_on_canvas_def alpha_composite_def Image_new_def Let_def s)
qed


text \<open>
  Claim C8.  In both modes the content is placed with its top-left corner at
  \<open>((canvas_w - content_w) div 2, (canvas_h - content_h) div 2)\<close>, \<open>div\<close> being floor
  division as Python's \<open>//\<close>: every pixel of the returned canvas inside the rectangle of
  the content's size at that offset is the content's pixel at the corresponding position
  (composited over the transparent canvas in transparent mode, copied in opaque mode), and
  every other pixel is the canvas background.
\<close>

theorem centred_offset:
  assumes c: "render_content X svg_path width height zoom padding transparent bg_color
                = Inr (canvas_w, canvas_h, content)"
    and r: "render_svg_to_pillow X svg_path width height zoom padding transparent bg_color = Inr img"
  shows "im_px img x y =
     (let cx = (canvas_w - fst (im_size content)) div 2;
          cy = (canvas_h - snd (im_size content)) div 2;
          bg = (case bg_color of Some c \<Rightarrow> c | None \<Rightarrow> QColor_white)
      in if 0 \<le> x \<and> x < canvas_w \<and> 0 \<le> y \<and> y < canvas_h \<and>
            cx \<le> x \<and> x < cx + fst (im_size content) \<and>
            cy \<le> y \<and> y < cy + snd (im_size content)
         then (if transparent
               then composite_px X (im_px content (x - cx) (y - cy)) (0, 0, 0, 0)
               else im_px content (x - cx) (y - cy))
         else (if transparent then (0, 0, 0, 0) else (red bg, green bg, blue bg, 255)))"
proof -
  from r c have p: "place_on_canvas X transparent bg_color (canvas_w, canvas_h, content) = Inr img"
    by (simp add: render_svg_to_pillow_def)
  note m = render_content_mode[OF c]
  show ?thesis
  proof (cases transparent)
    case True
    with m have "im_mode content = RGBA" by simp
    with p True show ?thesis
      unfolding place_on_canvas_def alpha_composite_def Image_new_def covers_def Let_def
      by (auto split: if_splits)
  next
    case False
    with m have "im_mode content = RGB" by simp
    with p False show ?thesis
      unfolding place_on_canvas_def paste_def convert_def Image_new_def covers_def Let_def
      by (auto split: if_splits)
  qed
qed

theorem centred_offset_witness:
  "\<exists>c img. render_content oversize_ext ''icon.svg'' 64 48 1 4 True None = Inr (64, 48, c) \<and>
      render_svg_to_pillow oversize_ext ''icon.svg'' 64 48 1 4 True None = Inr img \<and>
      im_size c = (56, 40) \<and>
      im_px img 4 4 = (0, 0, 0, 255) \<and> im_px img 3 4 = (0, 0, 0, 0) \<and>
      im_px img 59 43 = (0, 0, 0, 255) \<and> im_px img 60 43 = (0, 0, 0, 0)"
proof -
  from oversize_render_returns obtain img where
    r: "render_svg_to_pillow oversize_ext ''icon.svg'' 64 48 1 4 True None = Inr img" ..
  note o = centred_offset[OF oversize_render_content r]
  have "im_px img 4 4 = (0, 0, 0, 255)" "im_px img 3 4 = (0, 0, 0, 0)"
       "im_px img 59 43 = (0, 0, 0, 255)" "im_px img 60 43 = (0, 0, 0, 0)"
    by (simp_all add: o oversize_ext_def)
  with r oversize_render_content show ?thesis by simp
qed

section \<open>Raster sources\<close>

lemma png_render_to_pillow_explicit:
  "png_render_to_pillow X src width height kwargs =
     (case image_open X src of
        Inl e \<Rightarrow> Inl e
      | Inr dec \<Rightarrow>
          if width \<le> 0 \<or> height \<le> 0 then Inl (ValueError ''height and width must be > 0'')
          else Inr \<lparr>im_mode = RGBA, im_size = (width, height),
                    im_px = resample X (convert X dec RGBA) (width, height)\<rparr>)"
  unfolding png_render_to_pillow_def resize_def
  by (cases "image_open X src") (simp_all add: convert_def)

lemma lower_logo: "lower ''logo.PNG'' = ''logo.png''"
  by code_simp

text \<open>
  Claim C10.  For a source whose path ends in \<open>.png\<close>, the image rendered by
  \<open>png_render_to_pillow\<close> (lines 452 to 456) is the decoded source converted to \<open>RGBA\<close> and
  resampled to exactly the width and height asked for, whatever keyword arguments are
  passed; the preview (lines 410 to 414) shows that same image at the preview size; and
  the preview does not change when the zoom, the padding, the transparent flag or the
  background colour change.
\<close>

theorem raster_source_render:
  assumes "app_svg_path self = Some src" and "suffix ''.png'' (lower src)"
  shows "png_render_to_pillow X src width height kwargs =
           (case image_open X src of
              Inl e \<Rightarrow> Inl e
            | Inr dec \<Rightarrow>
                if width \<le> 0 \<or> height \<le> 0 then Inl (ValueError ''height and width must be > 0'')
                else Inr \<lparr>im_mode = RGBA, im_size = (width, height),
                          im_px = resample X (convert X dec RGBA) (width, height)\<rparr>) \<and>
         update_preview X self =
           (case png_render_to_pillow X src
                   (if profileCombo self = ''Create Windows icon (.ico)'' then 256
                    else if profileCombo self = ''Create macOS icon (.icns)'' then 1024
                    else widthSpin self)
                   (if profileCombo self = ''Create Windows icon (.ico)'' then 256
                    else if profileCombo self = ''Create macOS icon (.icns)'' then 1024
                    else heightSpin self) kwargs of
              Inl e \<Rightarrow> Text (''Preview error:'' @ [CHR 0x0A] @ str_error e)
            | Inr img \<Rightarrow> Pixmap img) \<and>
         update_preview X (self\<lparr>zoomSlider := z, paddingSpin := p, transparentBg := t, bgColor := c\<rparr>)
           = update_preview X self"
proof -
  from assms(2) have ne: "src \<noteq> []" by (auto simp: lower_def)
  have mw: "py_max WINDOWS_ICO_SIZES = Inr 256" by (simp add: py_max_def WINDOWS_ICO_SIZES_def)
  have mm: "py_max MAC_ICON_SIZES = Inr 1024" by (simp add: py_max_def MAC_ICON_SIZES_def)
  have a: "png_render_to_pillow X src width height kwargs =
           (case image_open X src of
              Inl e \<Rightarrow> Inl e
            | Inr dec \<Rightarrow>
                if width \<le> 0 \<or> height \<le> 0 then Inl (ValueError ''height and width must be > 0'')
                else Inr \<lparr>im_mode = RGBA, im_size = (width, height),
                          im_px = resample X (convert X dec RGBA) (width, height)\<rparr>)"
    by (rule png_render_to_pillow_explicit)
  have b: "update_preview X self =
           (case png_render_to_pillow X src
                   (if profileCombo self = ''Create Windows icon (.ico)'' then 256
                    else if profileCombo self = ''Create macOS icon (.icns)'' then 1024
                    else widthSpin self)
                   (if profileCombo self = ''Create Windows icon (.ico)'' then 256
                    else if profileCombo self = ''Create macOS icon (.icns)'' then 1024
                    else heightSpin self) kwargs of
              Inl e \<Rightarrow> Text (''Preview error:'' @ [CHR 0x0A] @ str_error e)
            | Inr img \<Rightarrow> Pixmap img)"
    unfolding update_preview_def png_render_to_pillow_def Let_def
    using assms ne by (simp add: mw mm)
  have c: "update_preview X (self\<lparr>zoomSlider := z, paddingSpin := p, transparentBg := t, bgColor := c\<rparr>)
           = update_preview X self"
    unfolding update_preview_def Let_def using assms ne by (simp add: mw mm)
  from a b c show ?thesis by (intro conjI)
qed

theorem raster_source_render_witness:
  "app_svg_path demo_app = Some ''logo.PNG'' \<and> suffix ''.png'' (lower ''logo.PNG'') \<and>
   update_preview oversize_ext demo_app =
     Pixmap \<lparr>im_mode = RGBA, im_size = (64, 48), im_px = (\<lambda>x y. (10, 20, 30, 40))\<rparr> \<and>
   update_preview oversize_ext
     (demo_app\<lparr>zoomSlider := 10, paddingSpin := 8, transparentBg := False,
               bgColor := \<lparr>red = 0, green = 0, blue = 0, alpha = 255\<rparr>\<rparr>)
     = Pixmap \<lparr>im_mode = RGBA, im_size = (64, 48), im_px = (\<lambda>x y. (10, 20, 30, 40))\<rparr>"
proof -
  have h: "app_svg_path demo_app = Some ''logo.PNG''" "suffix ''.png'' (lower ''logo.PNG'')"
    by (simp_all add: demo_app_def lower_logo suffix_def)
  note r = raster_source_render[where X = oversize_ext and width = 64 and height = 48
      and kwargs = "()" and z = 10 and p = 8 and t = False
      and c = "\<lparr>red = 0, green = 0, blue = 0, alpha = 255\<rparr>", OF h]
  have o: "image_open oversize_ext ''logo.PNG'' = Inr (Image_new RGBA (4, 4) (10, 20, 30, 40))"
    by (simp add: oversize_ext_def)
  have q: "resample oversize_ext (convert oversize_ext (Image_new RGBA (4, 4) (10, 20, 30, 40)) RGBA) (64, 48)
             = (\<lambda>x y. (10, 20, 30, 40))"
    by (simp add: oversize_ext_def convert_def Image_new_def)
  have pc: "profileCombo demo_app = ''Custom export''" "widthSpin demo_app = 64" "heightSpin demo_app = 48"
    by (simp_all add: demo_app_def)
  from r have r1: "png_render_to_pillow oversize_ext ''logo.PNG'' 64 48 () =
      Inr \<lparr>im_mode = RGBA, im_size = (64, 48), im_px = (\<lambda>x y. (10, 20, 30, 40))\<rparr>"
    by (simp add: o q)
  from r have "update_preview oversize_ext demo_app =
      (case png_render_to_pillow oversize_ext ''logo.PNG'' 64 48 () of
              Inl e \<Rightarrow> Text (''Preview error:'' @ [CHR 0x0A] @ str_error e)
            | Inr img \<Rightarrow> Pixmap img)"
    by (simp add: pc)
  then have r2: "update_preview oversize_ext demo_app =
     Pixmap \<lparr>im_mode = RGBA, im_size = (64, 48), im_px = (\<lambda>x y. (10, 20, 30, 40))\<rparr>"
    by (simp add: r1)
  from r have r3: "update_preview oversize_ext
     (demo_app\<lparr>zoomSlider := 10, paddingSpin := 8, transparentBg := False,
               bgColor := \<lparr>red = 0, green = 0, blue = 0, alpha = 255\<rparr>\<rparr>)
     = update_preview oversize_ext demo_app" by simp
  from h r2 r3 show ?thesis by simp
qed

lemma program_import_OSError:
  "program X (ImportOSError m) cs wld =
     (SysExit 1
        (str_join [CHR 0x0A]
           [[CHR 0x0A] @ ''ERROR: The Cairo graphics library required by CairoSVG is not installed.'',
            m,
            [CHR 0x0A] @ ''To fix this, follow the instructions for your platform:'' @ [CHR 0x0A],
            if platform_system X = ''Darwin'' then
              ''macOS: Run '' @ [CHR 0x27] @ ''brew install cairo'' @ [CHR 0x27] @
              '' in Terminal. If you don'' @ [CHR 0x27] @
              ''t have Homebrew, install it from https://brew.sh first.''
            else if platform_system X = ''Windows'' then
              ''Windows: Install GTK3 and Cairo using MSYS2 or download prebuilt binaries. See https://pycairo.readthedocs.io/en/latest/getting_started.html#windows.''
            else
              ''Linux: Run '' @ [CHR 0x27] @ ''sudo apt-get install libcairo2'' @ [CHR 0x27] @
              '' or use your distro'' @ [CHR 0x27] @ ''s package manager.''] @ [CHR 0x0A]),
      [], wld)"
  unfolding program_def import_cairosvg_def by simp

text \<open>
  Claim C7, as the code has it.  When \<open>import cairosvg\<close> raises \<open>OSError\<close>, the program
  prints the message of the exception and the instructions for the platform on the
  standard error stream and exits with status 1, at the import: whatever the user would
  have clicked, no export runs, no message box is shown and the output tree is left as it
  was.  There is no error value for an unavailable backend that a caller of an export
  could catch.
\<close>

theorem unavailable_backend_exits_at_import:
  "\<exists>err. program X (ImportOSError m) cs wld = (SysExit 1 err, [], wld) \<and>
         err = str_join [CHR 0x0A]
           [[CHR 0x0A] @ ''ERROR: The Cairo graphics library required by CairoSVG is not installed.'',
            m,
            [CHR 0x0A] @ ''To fix this, follow the instructions for your platform:'' @ [CHR 0x0A],
            if platform_system X = ''Darwin'' then
              ''macOS: Run '' @ [CHR 0x27] @ ''brew install cairo'' @ [CHR 0x27] @
              '' in Terminal. If you don'' @ [CHR 0x27] @
              ''t have Homebrew, install it from https://brew.sh first.''
            else if platform_system X = ''Windows'' then
              ''Windows: Install GTK3 and Cairo using MSYS2 or download prebuilt binaries. See https://pycairo.readthedocs.io/en/latest/getting_started.html#windows.''
            else
              ''Linux: Run '' @ [CHR 0x27] @ ''sudo apt-get install libcairo2'' @ [CHR 0x27] @
              '' or use your distro'' @ [CHR 0x27] @ ''s package manager.''] @ [CHR 0x0A]"
proof -
  have "import_cairosvg X (ImportOSError m) \<noteq> Running"
    unfolding import_cairosvg_def by simp
  have "program X (ImportOSError m) cs wld =
     (SysExit 1
        (str_join [CHR 0x0A]
           [[CHR 0x0A] @ ''ERROR: The Cairo graphics library required by CairoSVG is not installed.'',
            m,
            [CHR 0x0A] @ ''To fix this, follow the instructions for your platform:'' @ [CHR 0x0A],
            if platform_system X = ''Darwin'' then
              ''macOS: Run '' @ [CHR 0x27] @ ''brew install cairo'' @ [CHR 0x27] @
              '' in Terminal. If you don'' @ [CHR 0x27] @
              ''t have Homebrew, install it from https://brew.sh first.''
            else if platform_system X = ''Windows'' then
              ''Windows: Install GTK3 and Cairo using MSYS2 or download prebuilt binaries. See https://pycairo.readthedocs.io/en/latest/getting_started.html#windows.''
            else
              ''Linux: Run '' @ [CHR 0x27] @ ''sudo apt-get install libcairo2'' @ [CHR 0x27] @
              '' or use your distro'' @ [CHR 0x27] @ ''s package manager.''] @ [CHR 0x0A]),
      [], wld)"
    unfolding program_def import_cairosvg_def by simp
  then show ?thesis by blast
qed

theorem unavailable_backend_exits_at_import_witness:
  "\<exists>err. program oversize_ext (ImportOSError ''no library called cairo-2 was found'')
            [(svg_app, Some ''out'')] empty_world = (SysExit 1 err, [], empty_world) \<and>
         suffix (''Linux: Run '' @ [CHR 0x27] @ ''sudo apt-get install libcairo2'' @ [CHR 0x27] @
                 '' or use your distro'' @ [CHR 0x27] @ ''s package manager.'' @ [CHR 0x0A]) err"
proof -
  from unavailable_backend_exits_at_import[of oversize_ext "''no library called cairo-2 was found''"
      "[(svg_app, Some ''out'')]" empty_world]
  obtain err where e: "program oversize_ext (ImportOSError ''no library called cairo-2 was found'')
            [(svg_app, Some ''out'')] empty_world = (SysExit 1 err, [], empty_world)"
    and s: "err = str_join [CHR 0x0A]
           [[CHR 0x0A] @ ''ERROR: The Cairo graphics library required by CairoSVG is not installed.'',
            ''no library called cairo-2 was found'',
            [CHR 0x0A] @ ''To fix this, follow the instructions for your platform:'' @ [CHR 0x0A],
            if platform_system oversize_ext = ''Darwin'' then
              ''macOS: Run '' @ [CHR 0x27] @ ''brew install cairo'' @ [CHR 0x27] @
              '' in Terminal. If you don'' @ [CHR 0x27] @
              ''t have Homebrew, install it from https://brew.sh first.''
            else if platform_system oversize_ext = ''Windows'' then
              ''Windows: Install GTK3 and Cairo using MSYS2 or download prebuilt binaries. See https://pycairo.readthedocs.io/en/latest/getting_started.html#windows.''
            else
              ''Linux: Run '' @ [CHR 0x27] @ ''sudo apt-get install libcairo2'' @ [CHR 0x27] @
              '' or use your distro'' @ [CHR 0x27] @ ''s package manager.''] @ [CHR 0x0A]"
    by blast
  have p: "platform_system oversize_ext = ''Linux''" by (simp add: oversize_ext_def)
  from s have "suffix (''Linux: Run '' @ [CHR 0x27] @ ''sudo apt-get install libcairo2'' @ [CHR 0x27] @
                 '' or use your distro'' @ [CHR 0x27] @ ''s package manager.'' @ [CHR 0x0A]) err"
    unfolding p by (simp add: suffix_def)
  with e show ?thesis by blast
qed

text \<open>
  An instance.  With a backend that cannot be loaded, the click that would have exported
  is never handled: the program is not running, no message box is shown, so no export has
  failed with an error that its caller caught, and nothing is written.  When the package
  itself is missing, the exception is not an \<open>OSError\<close>: it is not caught and no
  instructions are printed.
\<close>

theorem backend_failure_is_not_an_export_error:
  "fst (program oversize_ext (ImportOSError ''no library called cairo-2 was found'')
          [(svg_app, Some ''out'')] empty_world) \<noteq> Running \<and>
   fst (snd (program oversize_ext (ImportOSError ''no library called cairo-2 was found'')
          [(svg_app, Some ''out'')] empty_world)) = [] \<and>
   files (snd (snd (program oversize_ext (ImportOSError ''no library called cairo-2 was found'')
          [(svg_app, Some ''out'')] empty_world))) = [] \<and>
   (\<exists>m. fst (program oversize_ext (ImportOtherError ''No module named cairosvg'')
          [(svg_app, Some ''out'')] empty_world) = Uncaught m)"
  by (simp add: program_import_OSError empty_world_def program_def import_cairosvg_def)





section \<open>Rasteriser invocations of the exports\<close>


lemma png_renderer_eq:
  "png_renderer X sp =
     (\<lambda>wld w h. (png_render_to_pillow X sp w h (), wld\<lparr>raster_log := raster_log wld @ []\<rparr>))"
  by (intro ext) (simp add: png_renderer_def)













end
